theory Spec2Isabelle
  imports Complex_Main
begin

section \<open>The CCORE wrapper of pyclustering (core/wrapper.py)\<close>

text \<open>
  The wrapper marshals data between Python and the CCORE library through ctypes.
  The embedding follows wrapper.py function by function. Foreign memory is a store of
  typed views indexed by address; every Python exception the wrapper can raise on such a
  store is a value of \<open>error\<close>.
\<close>

subsection \<open>Errors and host values\<close>

text \<open>
  \<^item> \<open>IndexError\<close>: a Python list indexed out of range.
  \<^item> \<open>ValueError\<close>: ctypes refuses to index a NULL pointer ("NULL pointer access").
  \<^item> \<open>AssertionError\<close>: \<open>assert(0)\<close>, when the interpreter executes assertions.
  \<^item> \<open>TypeError\<close>: \<open>None\<close> is indexed.
  \<^item> \<open>RecursionError\<close>: the interpreter's recursion depth is exhausted.
\<close>

datatype error = IndexError | ValueError | AssertionError | TypeError | RecursionError

text \<open>
  Values handed back to Python. \<open>'f\<close> is the type of Python floats; the wrapper only
  copies floats, it never computes with them. A Python list of clusters is a
  \<open>nat list list\<close>, the result of the package decoder is a list of \<open>pyvalue\<close>.
\<close>

datatype 'f pyvalue = PyInt int | PyFloat 'f | PyList "'f pyvalue list"

subsection \<open>Structures of core/definitions.py\<close>

type_synonym addr = nat

text \<open>
  Modelled from the spec: core/definitions.py (the ctypes \<open>Structure\<close> declarations and the
  codes of \<open>pyclustering_type_data\<close>) is not among the sources. The records carry the fields
  wrapper.py reads and writes; counts are unsigned, pointers are addresses, and the
  address 0 is NULL. The fields \<open>size\<close>, \<open>type\<close> and \<open>data\<close> of \<open>pyclustering_package\<close> are
  named \<open>package_size\<close>, \<open>package_type\<close> and \<open>package_data\<close>, the field \<open>times\<close> of
  \<open>dynamic_result\<close> is named \<open>times'\<close>.
\<close>

record cluster_representation =
  number_objects :: nat
  pointer_objects :: addr

record data_representation =
  number_objects :: nat
  dimension :: nat
  pointer_objects :: addr

record clustering_result =
  number_clusters :: nat
  pointer_clusters :: addr

record dynamic_result =
  size_dynamic :: nat
  size_network :: nat
  times' :: addr
  dynamic :: addr

record pyclustering_package =
  package_size :: nat
  package_type :: nat
  package_data :: addr

text \<open>
  Modelled from the spec: the seven codes of \<open>pyclustering_type_data\<close>. Their numeric values
  are declared in core/definitions.py; the decoder takes them as a parameter.
\<close>

record pyclustering_type_data =
  PYCLUSTERING_TYPE_INT :: nat
  PYCLUSTERING_TYPE_UNSIGNED_INT :: nat
  PYCLUSTERING_TYPE_FLOAT :: nat
  PYCLUSTERING_TYPE_DOUBLE :: nat
  PYCLUSTERING_TYPE_LONG :: nat
  PYCLUSTERING_TYPE_UNSIGNED_LONG :: nat
  PYCLUSTERING_TYPE_LIST :: nat

subsection \<open>Foreign memory\<close>

text \<open>
  Each field is what ctypes yields for one kind of read: \<open>c_double_at m a i\<close> is the
  Python value of \<open>p[i]\<close> for \<open>p = cast(a, POINTER(c_double))\<close>, \<open>pyclustering_package_at m a\<close>
  is the structure \<open>cast(a, POINTER(pyclustering_package))[0]\<close>, and so on. ctypes checks
  nothing but NULL, so reads at other addresses always yield what the memory holds.
  \<open>last_alloc\<close> is the highest address handed out by a ctypes allocation so far.
\<close>

record 'f memory =
  data_representation_at :: "addr \<Rightarrow> data_representation"
  clustering_result_at :: "addr \<Rightarrow> clustering_result"
  cluster_representation_at :: "addr \<Rightarrow> nat \<Rightarrow> cluster_representation"
  dynamic_result_at :: "addr \<Rightarrow> dynamic_result"
  pyclustering_package_at :: "addr \<Rightarrow> pyclustering_package"
  pointer_at :: "addr \<Rightarrow> nat \<Rightarrow> addr"
  c_int_at :: "addr \<Rightarrow> nat \<Rightarrow> int"
  c_uint_at :: "addr \<Rightarrow> nat \<Rightarrow> nat"
  c_float_at :: "addr \<Rightarrow> nat \<Rightarrow> 'f"
  c_double_at :: "addr \<Rightarrow> nat \<Rightarrow> 'f"
  c_long_at :: "addr \<Rightarrow> nat \<Rightarrow> int"
  c_ulong_at :: "addr \<Rightarrow> nat \<Rightarrow> nat"
  last_alloc :: addr

datatype ctype = c_int | c_uint | c_float | c_double | c_long | c_ulong

text \<open>The element \<open>index\<close> behind a pointer to a scalar type, as the Python value ctypes makes of it.\<close>

definition scalar_at :: "'f memory \<Rightarrow> ctype \<Rightarrow> addr \<Rightarrow> nat \<Rightarrow> 'f pyvalue" where
  "scalar_at m t p index =
     (case t of
        c_int \<Rightarrow> PyInt (c_int_at m p index)
      | c_uint \<Rightarrow> PyInt (int (c_uint_at m p index))
      | c_float \<Rightarrow> PyFloat (c_float_at m p index)
      | c_double \<Rightarrow> PyFloat (c_double_at m p index)
      | c_long \<Rightarrow> PyInt (c_long_at m p index)
      | c_ulong \<Rightarrow> PyInt (int (c_ulong_at m p index)))"

text \<open>\<open>p[index]\<close> for a pointer \<open>p\<close> to a scalar type: NULL raises, anything else is read.\<close>

definition read_scalar :: "'f memory \<Rightarrow> ctype \<Rightarrow> addr \<Rightarrow> nat \<Rightarrow> error + 'f pyvalue" where
  "read_scalar m t p index = (if p = 0 then Inl ValueError else Inr (scalar_at m t p index))"

text \<open>The same for \<open>c_uint\<close>, \<open>c_double\<close> and pointer elements, as the fixed decoders read them.\<close>

definition read_uint :: "'f memory \<Rightarrow> addr \<Rightarrow> nat \<Rightarrow> error + nat" where
  "read_uint m p index = (if p = 0 then Inl ValueError else Inr (c_uint_at m p index))"

definition read_double :: "'f memory \<Rightarrow> addr \<Rightarrow> nat \<Rightarrow> error + 'f" where
  "read_double m p index = (if p = 0 then Inl ValueError else Inr (c_double_at m p index))"

definition read_pointer :: "'f memory \<Rightarrow> addr \<Rightarrow> nat \<Rightarrow> error + addr" where
  "read_pointer m p index = (if p = 0 then Inl ValueError else Inr (pointer_at m p index))"

subsection \<open>Loops that append\<close>

text \<open>
  \<open>for index in indices: result.append(body(index))\<close>, starting from the empty list: the
  first exception raised by the body leaves the loop.
\<close>

fun for_append :: "nat list \<Rightarrow> (nat \<Rightarrow> error + 'a) \<Rightarrow> error + 'a list" where
  "for_append [] body = Inr []"
| "for_append (index # rest) body =
     (case body index of
        Inl e \<Rightarrow> Inl e
      | Inr x \<Rightarrow> (case for_append rest body of Inl e \<Rightarrow> Inl e | Inr xs \<Rightarrow> Inr (x # xs)))"

subsection \<open>extract_pyclustering_package\<close>

text \<open>
  The argument of the decoder is either a Python integer (what a CCORE call returns) or
  a ctypes pointer instance (what \<open>pointer_data[index]\<close> and \<open>cast\<close> yield in the recursive
  call). The test \<open>ccore_package_pointer == 0\<close> compares numbers for an integer; a ctypes
  pointer instance has no equality of its own, so it is never equal to 0, NULL or not.
\<close>

datatype handle = Integer addr | Pointer addr

fun equals_zero :: "handle \<Rightarrow> bool" where
  "equals_zero (Integer a) = (a = 0)"
| "equals_zero (Pointer a) = False"

fun address :: "handle \<Rightarrow> addr" where
  "address (Integer a) = a"
| "address (Pointer a) = a"

text \<open>The \<open>if\<close>/\<open>elif\<close> chain choosing the cast of \<open>pointer_package[0].data\<close>.\<close>

datatype pointer_type = ScalarPointer ctype | PackagePointer

definition select_pointer_data :: "pyclustering_type_data \<Rightarrow> nat \<Rightarrow> pointer_type option" where
  "select_pointer_data codes type_package =
     (if type_package = PYCLUSTERING_TYPE_INT codes then Some (ScalarPointer c_int)
      else if type_package = PYCLUSTERING_TYPE_UNSIGNED_INT codes then Some (ScalarPointer c_uint)
      else if type_package = PYCLUSTERING_TYPE_FLOAT codes then Some (ScalarPointer c_float)
      else if type_package = PYCLUSTERING_TYPE_DOUBLE codes then Some (ScalarPointer c_double)
      else if type_package = PYCLUSTERING_TYPE_LONG codes then Some (ScalarPointer c_long)
      else if type_package = PYCLUSTERING_TYPE_UNSIGNED_LONG codes then Some (ScalarPointer c_ulong)
      else if type_package = PYCLUSTERING_TYPE_LIST codes then Some PackagePointer
      else None)"

text \<open>
  \<open>debug\<close> is the interpreter's \<open>__debug__\<close>: it is true unless Python runs with \<open>-O\<close>,
  which removes every \<open>assert\<close> statement. The second argument is the recursion depth the
  interpreter still allows; a call with none left raises \<open>RecursionError\<close>. In the list
  branch the sub-packages are decoded inside the loop; the loop after the chain is skipped
  there, since \<open>type_package\<close> is the list code. In the last branch \<open>assert(0)\<close> raises when
  assertions are executed; when they are not, the branch does nothing, \<open>pointer_data\<close> is
  still \<open>None\<close>, and the loop after the chain raises \<open>TypeError\<close> at its first round, if it
  has one.
\<close>

fun extract_pyclustering_package ::
  "bool \<Rightarrow> nat \<Rightarrow> pyclustering_type_data \<Rightarrow> 'f memory \<Rightarrow> handle \<Rightarrow> error + 'f pyvalue list" where
  "extract_pyclustering_package debug 0 codes m ccore_package_pointer = Inl RecursionError"
| "extract_pyclustering_package debug (Suc depth) codes m ccore_package_pointer =
     (if equals_zero ccore_package_pointer then Inr []
      else if address ccore_package_pointer = 0 then Inl ValueError
      else
        let pointer_package = pyclustering_package_at m (address ccore_package_pointer);
            size = package_size pointer_package;
            type_package = package_type pointer_package;
            pointer_data = package_data pointer_package
        in case select_pointer_data codes type_package of
             None \<Rightarrow>
               if debug then Inl AssertionError
               else if type_package \<noteq> PYCLUSTERING_TYPE_LIST codes
               then for_append [0..<size] (\<lambda>index. Inl TypeError)
               else Inr []
           | Some PackagePointer \<Rightarrow>
               for_append [0..<size] (\<lambda>index.
                 case read_pointer m pointer_data index of
                   Inl e \<Rightarrow> Inl e
                 | Inr sub \<Rightarrow>
                     map_sum id PyList
                       (extract_pyclustering_package debug depth codes m (Pointer sub)))
           | Some (ScalarPointer t) \<Rightarrow>
               if type_package \<noteq> PYCLUSTERING_TYPE_LIST codes
               then for_append [0..<size] (read_scalar m t pointer_data)
               else Inr [])"

subsection \<open>extract_clusters\<close>

definition extract_clusters :: "'f memory \<Rightarrow> addr \<Rightarrow> error + nat list list" where
  "extract_clusters m ccore_result =
     (if ccore_result = 0 then Inl ValueError
      else
        let pointer_clustering_result = clustering_result_at m ccore_result;
            number_clusters = number_clusters pointer_clustering_result
        in for_append [0..<number_clusters] (\<lambda>index_cluster.
             let clusters = pointer_clusters pointer_clustering_result
             in if clusters = 0 then Inl ValueError
                else
                  let objects =
                        cluster_representation.pointer_objects
                          (cluster_representation_at m clusters index_cluster)
                  in for_append
                       [0..<cluster_representation.number_objects
                              (cluster_representation_at m clusters index_cluster)]
                       (read_uint m objects)))"

subsection \<open>extract_dynamics\<close>

text \<open>
  \<open>times\<close> and \<open>dynamic\<close> grow by one entry in each round of the outer loop; the loop
  collects the pairs and the result splits them.
\<close>

definition extract_dynamics :: "'f memory \<Rightarrow> addr \<Rightarrow> error + 'f list \<times> 'f list list" where
  "extract_dynamics m ccore_result =
     (if ccore_result = 0 then Inl ValueError
      else
        let pointer_dynamic_result = dynamic_result_at m ccore_result;
            size_dynamic = size_dynamic pointer_dynamic_result;
            size_network = size_network pointer_dynamic_result;
            pointer_time = times' pointer_dynamic_result;
            pointer_pointer_dynamic = dynamic pointer_dynamic_result
        in case for_append [0..<size_dynamic] (\<lambda>index.
                  case read_double m pointer_time index of
                    Inl e \<Rightarrow> Inl e
                  | Inr time \<Rightarrow>
                      (case read_pointer m pointer_pointer_dynamic index of
                         Inl e \<Rightarrow> Inl e
                       | Inr pointer_dynamic \<Rightarrow>
                           (case for_append [0..<size_network] (read_double m pointer_dynamic) of
                              Inl e \<Rightarrow> Inl e
                            | Inr row \<Rightarrow> Inr (time, row)))) of
             Inl e \<Rightarrow> Inl e
           | Inr steps \<Rightarrow> Inr (map fst steps, map snd steps))"

subsection \<open>create_pointer_data\<close>

text \<open>
  A ctypes allocation takes the next address; no two allocations share one, and none is
  NULL. A new structure or array is filled with zeros.
\<close>

definition alloc_data_representation :: "'f memory \<Rightarrow> addr \<times> 'f memory" where
  "alloc_data_representation m =
     (let a = Suc (last_alloc m)
      in (a, m\<lparr>data_representation_at := (data_representation_at m)
                   (a := \<lparr>number_objects = 0, dimension = 0, pointer_objects = 0\<rparr>),
               last_alloc := a\<rparr>))"

definition alloc_pointer_array :: "nat \<Rightarrow> 'f memory \<Rightarrow> addr \<times> 'f memory" where
  "alloc_pointer_array n m =
     (let a = Suc (last_alloc m)
      in (a, m\<lparr>pointer_at := (pointer_at m)
                   (a := (\<lambda>i. if i < n then 0 else pointer_at m a i)),
               last_alloc := a\<rparr>))"

definition alloc_double_array :: "nat \<Rightarrow> ('f::zero) memory \<Rightarrow> addr \<times> 'f memory" where
  "alloc_double_array n m =
     (let a = Suc (last_alloc m)
      in (a, m\<lparr>c_double_at := (c_double_at m)
                   (a := (\<lambda>i. if i < n then 0 else c_double_at m a i)),
               last_alloc := a\<rparr>))"

definition write_double :: "addr \<Rightarrow> nat \<Rightarrow> 'f \<Rightarrow> 'f memory \<Rightarrow> 'f memory" where
  "write_double p index v m = m\<lparr>c_double_at := (c_double_at m)(p := (c_double_at m p)(index := v))\<rparr>"

definition write_pointer :: "addr \<Rightarrow> nat \<Rightarrow> addr \<Rightarrow> 'f memory \<Rightarrow> 'f memory" where
  "write_pointer p index v m = m\<lparr>pointer_at := (pointer_at m)(p := (pointer_at m p)(index := v))\<rparr>"

definition update_data_representation ::
  "addr \<Rightarrow> (data_representation \<Rightarrow> data_representation) \<Rightarrow> 'f memory \<Rightarrow> 'f memory" where
  "update_data_representation p f m =
     m\<lparr>data_representation_at := (data_representation_at m)(p := f (data_representation_at m p))\<rparr>"

text \<open>\<open>xs[index]\<close> for a Python list: an index below zero counts from the end.\<close>

definition getitem :: "'a list \<Rightarrow> int \<Rightarrow> error + 'a" where
  "getitem xs index =
     (if 0 \<le> index \<and> index < int (length xs) then Inr (xs ! nat index)
      else if index < 0 \<and> - int (length xs) \<le> index then Inr (xs ! nat (int (length xs) + index))
      else Inl IndexError)"

text \<open>
  \<open>for index in indices: body\<close> for a body that writes to memory: the first exception
  leaves the loop, with the memory as it is by then.
\<close>

fun for_each :: "nat list \<Rightarrow> (nat \<Rightarrow> 's \<Rightarrow> error option \<times> 's) \<Rightarrow> 's \<Rightarrow> error option \<times> 's" where
  "for_each [] body s = (None, s)"
| "for_each (index # rest) body s =
     (case body index s of
        (Some e, s') \<Rightarrow> (Some e, s')
      | (None, s') \<Rightarrow> for_each rest body s')"

text \<open>
  One round of the inner loop, \<open>point[dimension] = sample[index][dimension]\<close>, and one
  round of the outer loop: allocate \<open>point\<close>, fill it, store its address in
  \<open>pointer_objects[index]\<close>.
\<close>

definition copy_coordinate ::
  "'f list list \<Rightarrow> nat \<Rightarrow> addr \<Rightarrow> nat \<Rightarrow> 'f memory \<Rightarrow> error option \<times> 'f memory" where
  "copy_coordinate sample index point d m =
     (case getitem sample (int index) of
        Inl e \<Rightarrow> (Some e, m)
      | Inr row \<Rightarrow>
          (case getitem row (int d) of
             Inl e \<Rightarrow> (Some e, m)
           | Inr v \<Rightarrow> (None, write_double point d v m)))"

definition create_point ::
  "'f list list \<Rightarrow> nat \<Rightarrow> addr \<Rightarrow> nat \<Rightarrow> ('f::zero) memory \<Rightarrow> error option \<times> 'f memory" where
  "create_point sample width pointer_objects' index m =
     (case alloc_double_array width m of (point, m') \<Rightarrow>
       (case for_each [0..<width] (copy_coordinate sample index point) m' of
          (Some e, m'') \<Rightarrow> (Some e, m'')
        | (None, m'') \<Rightarrow> (None, write_pointer pointer_objects' index point m'')))"

text \<open>
  The result is the exception or the address of \<open>input_data\<close>, together with the memory
  as the call leaves it: allocations made before an exception stay in it.
\<close>

definition create_pointer_data :: "'f list list \<Rightarrow> ('f::zero) memory \<Rightarrow> (error + addr) \<times> 'f memory" where
  "create_pointer_data sample m0 =
     (case alloc_data_representation m0 of (input_data, m1) \<Rightarrow>
       (let m2 = update_data_representation input_data
                   (\<lambda>r. r\<lparr>data_representation.number_objects := length sample\<rparr>) m1
        in case getitem sample 0 of
             Inl e \<Rightarrow> (Inl e, m2)
           | Inr first \<Rightarrow>
              (let m3 = update_data_representation input_data
                          (\<lambda>r. r\<lparr>dimension := length first\<rparr>) m2;
                   number_objects = data_representation.number_objects
                                      (data_representation_at m3 input_data);
                   width = dimension (data_representation_at m3 input_data)
               in case alloc_pointer_array number_objects m3 of (pointer_objects', m4) \<Rightarrow>
                   (case for_each [0..<number_objects]
                           (create_point sample width pointer_objects') m4 of
                      (Some e, m5) \<Rightarrow> (Inl e, m5)
                    | (None, m5) \<Rightarrow>
                        (Inr input_data,
                         update_data_representation input_data
                           (\<lambda>r. r\<lparr>data_representation.pointer_objects := pointer_objects'\<rparr>)
                           m5)))))"

subsection \<open>Calls into CCORE\<close>

text \<open>
  CCORE is the library loaded by \<open>cdll.LoadLibrary\<close>; what its entry points compute is
  not part of the wrapper. A library is a function from the name of the entry point, the
  arguments and the memory to the returned integer and the memory after the call. The
  process state keeps the memory and the list of the foreign calls made so far, oldest
  first.
\<close>

datatype 'f carg = ArgPointer addr | ArgInteger addr | ArgDouble 'f | ArgUInt nat | ArgBool bool

text \<open>\<open>c_uint(n)\<close> keeps the low 32 bits of a Python integer.\<close>

definition c_uint_arg :: "int \<Rightarrow> 'f carg" where
  "c_uint_arg n = ArgUInt (nat (n mod 2 ^ 32))"

type_synonym 'f ccore = "string \<Rightarrow> 'f carg list \<Rightarrow> 'f memory \<Rightarrow> addr \<times> 'f memory"

record 'f process =
  heap :: "'f memory"
  calls :: "(string \<times> 'f carg list) list"

definition invoke :: "'f ccore \<Rightarrow> string \<Rightarrow> 'f carg list \<Rightarrow> 'f process \<Rightarrow> addr \<times> 'f process" where
  "invoke ccore name args w =
     (case ccore name args (heap w) of
        (r, m) \<Rightarrow> (r, \<lparr>heap = m, calls = calls w @ [(name, args)]\<rparr>))"

subsection \<open>Clustering algorithms\<close>

text \<open>
  \<open>dbscan\<close> returns a list of clusters, or a pair of the clusters and the noise when
  \<open>return_noise\<close> is set.
\<close>

datatype dbscan_result = Clusters "nat list list" | ClustersAndNoise "nat list list" "nat list"

definition dbscan ::
  "'f ccore \<Rightarrow> 'f list list \<Rightarrow> 'f \<Rightarrow> int \<Rightarrow> bool \<Rightarrow> ('f::zero) process
     \<Rightarrow> (error + dbscan_result) \<times> 'f process" where
  "dbscan ccore sample eps min_neighbors return_noise w =
     (case create_pointer_data sample (heap w) of
        (Inl e, m1) \<Rightarrow> (Inl e, w\<lparr>heap := m1\<rparr>)
      | (Inr pointer_data, m1) \<Rightarrow>
         (case invoke ccore ''dbscan_algorithm''
                 [ArgPointer pointer_data, ArgDouble eps, c_uint_arg min_neighbors]
                 (w\<lparr>heap := m1\<rparr>) of
            (result, w1) \<Rightarrow>
              (case extract_clusters (heap w1) result of
                 Inl e \<Rightarrow> (Inl e, w1)
               | Inr list_of_clusters \<Rightarrow>
                   (case invoke ccore ''free_clustering_result'' [ArgInteger result] w1 of
                      (freed, w2) \<Rightarrow>
                        (case getitem list_of_clusters (int (length list_of_clusters) - 1) of
                           Inl e \<Rightarrow> (Inl e, w2)
                         | Inr noise \<Rightarrow>
                             (if return_noise
                              then (Inr (ClustersAndNoise (remove1 noise list_of_clusters) noise), w2)
                              else (Inr (Clusters (remove1 noise list_of_clusters)), w2)))))))"

definition cure ::
  "'f ccore \<Rightarrow> 'f list list \<Rightarrow> int \<Rightarrow> int \<Rightarrow> 'f \<Rightarrow> ('f::zero) process \<Rightarrow> (error + nat list list) \<times> 'f process" where
  "cure ccore sample number_clusters' number_represent_points compression w =
     (case create_pointer_data sample (heap w) of
        (Inl e, m1) \<Rightarrow> (Inl e, w\<lparr>heap := m1\<rparr>)
      | (Inr pointer_data, m1) \<Rightarrow>
         (case invoke ccore ''cure_algorithm''
                  [ArgPointer pointer_data, c_uint_arg number_clusters', c_uint_arg number_represent_points, ArgDouble compression]
                  (w\<lparr>heap := m1\<rparr>) of
            (result, w1) \<Rightarrow>
              (case extract_clusters (heap w1) result of
                 Inl e \<Rightarrow> (Inl e, w1)
               | Inr list_of_clusters \<Rightarrow>
                   (case invoke ccore ''free_clustering_result'' [ArgInteger result] w1 of
                      (freed, w2) \<Rightarrow> (Inr list_of_clusters, w2)))))"

definition hierarchical ::
  "'f ccore \<Rightarrow> 'f list list \<Rightarrow> int \<Rightarrow> ('f::zero) process \<Rightarrow> (error + nat list list) \<times> 'f process" where
  "hierarchical ccore sample number_clusters' w =
     (case create_pointer_data sample (heap w) of
        (Inl e, m1) \<Rightarrow> (Inl e, w\<lparr>heap := m1\<rparr>)
      | (Inr pointer_data, m1) \<Rightarrow>
         (case invoke ccore ''hierarchical_algorithm''
                  [ArgPointer pointer_data, c_uint_arg number_clusters']
                  (w\<lparr>heap := m1\<rparr>) of
            (result, w1) \<Rightarrow>
              (case extract_clusters (heap w1) result of
                 Inl e \<Rightarrow> (Inl e, w1)
               | Inr list_of_clusters \<Rightarrow>
                   (case invoke ccore ''free_clustering_result'' [ArgInteger result] w1 of
                      (freed, w2) \<Rightarrow> (Inr list_of_clusters, w2)))))"

definition kmeans ::
  "'f ccore \<Rightarrow> 'f list list \<Rightarrow> 'f list list \<Rightarrow> 'f \<Rightarrow> ('f::zero) process \<Rightarrow> (error + nat list list) \<times> 'f process" where
  "kmeans ccore sample centers tolerance w =
     (case create_pointer_data sample (heap w) of
        (Inl e, m1) \<Rightarrow> (Inl e, w\<lparr>heap := m1\<rparr>)
      | (Inr pointer_data, m1) \<Rightarrow>
         (case create_pointer_data centers m1 of
            (Inl e, m2) \<Rightarrow> (Inl e, w\<lparr>heap := m2\<rparr>)
          | (Inr pointer_centers, m2) \<Rightarrow>
             (case invoke ccore ''kmeans_algorithm''
                      [ArgPointer pointer_data, ArgPointer pointer_centers, ArgDouble tolerance]
                      (w\<lparr>heap := m2\<rparr>) of
                (result, w1) \<Rightarrow>
                  (case extract_clusters (heap w1) result of
                     Inl e \<Rightarrow> (Inl e, w1)
                   | Inr list_of_clusters \<Rightarrow>
                       (case invoke ccore ''free_clustering_result'' [ArgInteger result] w1 of
                          (freed, w2) \<Rightarrow> (Inr list_of_clusters, w2))))))"

definition rock ::
  "'f ccore \<Rightarrow> 'f list list \<Rightarrow> 'f \<Rightarrow> int \<Rightarrow> 'f \<Rightarrow> ('f::zero) process \<Rightarrow> (error + nat list list) \<times> 'f process" where
  "rock ccore sample eps number_clusters' threshold w =
     (case create_pointer_data sample (heap w) of
        (Inl e, m1) \<Rightarrow> (Inl e, w\<lparr>heap := m1\<rparr>)
      | (Inr pointer_data, m1) \<Rightarrow>
         (case invoke ccore ''rock_algorithm''
                  [ArgPointer pointer_data, ArgDouble eps, c_uint_arg number_clusters', ArgDouble threshold]
                  (w\<lparr>heap := m1\<rparr>) of
            (result, w1) \<Rightarrow>
              (case extract_clusters (heap w1) result of
                 Inl e \<Rightarrow> (Inl e, w1)
               | Inr list_of_clusters \<Rightarrow>
                   (case invoke ccore ''free_clustering_result'' [ArgInteger result] w1 of
                      (freed, w2) \<Rightarrow> (Inr list_of_clusters, w2)))))"

definition xmeans ::
  "'f ccore \<Rightarrow> 'f list list \<Rightarrow> 'f list list \<Rightarrow> int \<Rightarrow> 'f \<Rightarrow> ('f::zero) process \<Rightarrow> (error + nat list list) \<times> 'f process" where
  "xmeans ccore sample centers kmax tolerance w =
     (case create_pointer_data sample (heap w) of
        (Inl e, m1) \<Rightarrow> (Inl e, w\<lparr>heap := m1\<rparr>)
      | (Inr pointer_data, m1) \<Rightarrow>
         (case create_pointer_data centers m1 of
            (Inl e, m2) \<Rightarrow> (Inl e, w\<lparr>heap := m2\<rparr>)
          | (Inr pointer_centers, m2) \<Rightarrow>
             (case invoke ccore ''xmeans_algorithm''
                      [ArgPointer pointer_data, ArgPointer pointer_centers, c_uint_arg kmax, ArgDouble tolerance]
                      (w\<lparr>heap := m2\<rparr>) of
                (result, w1) \<Rightarrow>
                  (case extract_clusters (heap w1) result of
                     Inl e \<Rightarrow> (Inl e, w1)
                   | Inr list_of_clusters \<Rightarrow>
                       (case invoke ccore ''free_clustering_result'' [ArgInteger result] w1 of
                          (freed, w2) \<Rightarrow> (Inr list_of_clusters, w2))))))"

subsection \<open>Oscillatory networks\<close>

definition simulate_sync_network ::
  "'f ccore \<Rightarrow> addr \<Rightarrow> int \<Rightarrow> 'f \<Rightarrow> int \<Rightarrow> bool \<Rightarrow> 'f process \<Rightarrow> (error + 'f list \<times> 'f list list) \<times> 'f process" where
  "simulate_sync_network ccore pointer_network steps time solution collect_dynamic w =
     (case invoke ccore ''simulate_sync_network''
              [ArgInteger pointer_network, c_uint_arg steps, ArgDouble time, c_uint_arg solution, ArgBool collect_dynamic]
              w of
        (ccore_dynamic_result, w1) \<Rightarrow>
          (case extract_dynamics (heap w1) ccore_dynamic_result of
             Inl e \<Rightarrow> (Inl e, w1)
           | Inr python_dynamic_result \<Rightarrow>
               (case invoke ccore ''free_dynamic_result'' [ArgInteger ccore_dynamic_result] w1 of
                  (freed, w2) \<Rightarrow> (Inr python_dynamic_result, w2))))"

definition simulate_dynamic_sync_network ::
  "'f ccore \<Rightarrow> addr \<Rightarrow> 'f \<Rightarrow> int \<Rightarrow> bool \<Rightarrow> 'f \<Rightarrow> 'f \<Rightarrow> 'f \<Rightarrow> 'f process \<Rightarrow> (error + 'f list \<times> 'f list list) \<times> 'f process" where
  "simulate_dynamic_sync_network ccore pointer_network order solution collect_dynamic step int_step threshold_changes w =
     (case invoke ccore ''simulate_dynamic_sync_network''
              [ArgInteger pointer_network, ArgDouble order, c_uint_arg solution, ArgBool collect_dynamic, ArgDouble step, ArgDouble int_step, ArgDouble threshold_changes]
              w of
        (ccore_dynamic_result, w1) \<Rightarrow>
          (case extract_dynamics (heap w1) ccore_dynamic_result of
             Inl e \<Rightarrow> (Inl e, w1)
           | Inr python_dynamic_result \<Rightarrow>
               (case invoke ccore ''free_dynamic_result'' [ArgInteger ccore_dynamic_result] w1 of
                  (freed, w2) \<Rightarrow> (Inr python_dynamic_result, w2))))"

definition allocate_sync_ensembles_sync_network ::
  "'f ccore \<Rightarrow> addr \<Rightarrow> 'f \<Rightarrow> ('f::zero) process \<Rightarrow> (error + nat list list) \<times> 'f process" where
  "allocate_sync_ensembles_sync_network ccore pointer_network tolerance w =
     (case invoke ccore ''allocate_sync_ensembles_sync_network''
              [ArgInteger pointer_network, ArgDouble tolerance]
              w of
        (result, w1) \<Rightarrow>
          (case extract_clusters (heap w1) result of
             Inl e \<Rightarrow> (Inl e, w1)
           | Inr list_of_clusters \<Rightarrow>
               (case invoke ccore ''free_clustering_result'' [ArgInteger result] w1 of
                  (freed, w2) \<Rightarrow> (Inr list_of_clusters, w2))))"

definition process_syncnet ::
  "'f ccore \<Rightarrow> addr \<Rightarrow> 'f \<Rightarrow> int \<Rightarrow> bool \<Rightarrow> 'f process \<Rightarrow> (error + 'f list \<times> 'f list list) \<times> 'f process" where
  "process_syncnet ccore network_pointer order solution collect_dynamic w =
     (case invoke ccore ''process_syncnet''
              [ArgInteger network_pointer, ArgDouble order, c_uint_arg solution, ArgBool collect_dynamic]
              w of
        (ccore_dynamic_result, w1) \<Rightarrow>
          (case extract_dynamics (heap w1) ccore_dynamic_result of
             Inl e \<Rightarrow> (Inl e, w1)
           | Inr python_dynamic_result \<Rightarrow>
               (case invoke ccore ''free_dynamic_result'' [ArgInteger ccore_dynamic_result] w1 of
                  (freed, w2) \<Rightarrow> (Inr python_dynamic_result, w2))))"

definition get_clusters_syncnet ::
  "'f ccore \<Rightarrow> addr \<Rightarrow> 'f \<Rightarrow> ('f::zero) process \<Rightarrow> (error + nat list list) \<times> 'f process" where
  "get_clusters_syncnet ccore pointer_network tolerance w =
     (case invoke ccore ''get_clusters_syncnet''
              [ArgInteger pointer_network, ArgDouble tolerance]
              w of
        (result, w1) \<Rightarrow>
          (case extract_clusters (heap w1) result of
             Inl e \<Rightarrow> (Inl e, w1)
           | Inr list_of_clusters \<Rightarrow>
               (case invoke ccore ''free_clustering_result'' [ArgInteger result] w1 of
                  (freed, w2) \<Rightarrow> (Inr list_of_clusters, w2))))"

definition process_hsyncnet ::
  "'f ccore \<Rightarrow> addr \<Rightarrow> 'f \<Rightarrow> int \<Rightarrow> bool \<Rightarrow> 'f process \<Rightarrow> (error + 'f list \<times> 'f list list) \<times> 'f process" where
  "process_hsyncnet ccore network_pointer order solution collect_dynamic w =
     (case invoke ccore ''process_hsyncnet''
              [ArgInteger network_pointer, ArgDouble order, c_uint_arg solution, ArgBool collect_dynamic]
              w of
        (ccore_dynamic_result, w1) \<Rightarrow>
          (case extract_dynamics (heap w1) ccore_dynamic_result of
             Inl e \<Rightarrow> (Inl e, w1)
           | Inr python_dynamic_result \<Rightarrow>
               (case invoke ccore ''free_dynamic_result'' [ArgInteger ccore_dynamic_result] w1 of
                  (freed, w2) \<Rightarrow> (Inr python_dynamic_result, w2))))"

subsection \<open>Self-organized feature map\<close>

text \<open>
  The four readers of a map decode the package CCORE returns and return the result; they
  make no other foreign call. \<open>debug\<close> and \<open>depth\<close> are those of the decoder.
\<close>

definition som_get_capture_objects ::
  "bool \<Rightarrow> nat \<Rightarrow> pyclustering_type_data \<Rightarrow> 'f ccore \<Rightarrow> addr \<Rightarrow> 'f process \<Rightarrow> (error + 'f pyvalue list) \<times> 'f process" where
  "som_get_capture_objects debug depth codes ccore som_pointer w =
     (case invoke ccore ''som_get_capture_objects'' [ArgInteger som_pointer] w of
        (package, w1) \<Rightarrow>
          (extract_pyclustering_package debug depth codes (heap w1) (Integer package), w1))"

definition som_get_weights ::
  "bool \<Rightarrow> nat \<Rightarrow> pyclustering_type_data \<Rightarrow> 'f ccore \<Rightarrow> addr \<Rightarrow> 'f process \<Rightarrow> (error + 'f pyvalue list) \<times> 'f process" where
  "som_get_weights debug depth codes ccore som_pointer w =
     (case invoke ccore ''som_get_weights'' [ArgInteger som_pointer] w of
        (package, w1) \<Rightarrow>
          (extract_pyclustering_package debug depth codes (heap w1) (Integer package), w1))"

definition som_get_awards ::
  "bool \<Rightarrow> nat \<Rightarrow> pyclustering_type_data \<Rightarrow> 'f ccore \<Rightarrow> addr \<Rightarrow> 'f process \<Rightarrow> (error + 'f pyvalue list) \<times> 'f process" where
  "som_get_awards debug depth codes ccore som_pointer w =
     (case invoke ccore ''som_get_awards'' [ArgInteger som_pointer] w of
        (package, w1) \<Rightarrow>
          (extract_pyclustering_package debug depth codes (heap w1) (Integer package), w1))"

definition som_get_neighbors ::
  "bool \<Rightarrow> nat \<Rightarrow> pyclustering_type_data \<Rightarrow> 'f ccore \<Rightarrow> addr \<Rightarrow> 'f process \<Rightarrow> (error + 'f pyvalue list) \<times> 'f process" where
  "som_get_neighbors debug depth codes ccore som_pointer w =
     (case invoke ccore ''som_get_neighbors'' [ArgInteger som_pointer] w of
        (package, w1) \<Rightarrow>
          (extract_pyclustering_package debug depth codes (heap w1) (Integer package), w1))"

section \<open>Notions used in the statements\<close>

text \<open>
  The seven codes in the order of the \<open>if\<close>/\<open>elif\<close> chain, the property that they are
  pairwise different, and the code that stands for each scalar type.
\<close>

definition distinct_codes :: "pyclustering_type_data \<Rightarrow> bool" where
  "distinct_codes codes =
     distinct [PYCLUSTERING_TYPE_INT codes, PYCLUSTERING_TYPE_UNSIGNED_INT codes,
               PYCLUSTERING_TYPE_FLOAT codes, PYCLUSTERING_TYPE_DOUBLE codes,
               PYCLUSTERING_TYPE_LONG codes, PYCLUSTERING_TYPE_UNSIGNED_LONG codes,
               PYCLUSTERING_TYPE_LIST codes]"

fun scalar_code :: "pyclustering_type_data \<Rightarrow> ctype \<Rightarrow> nat" where
  "scalar_code codes c_int = PYCLUSTERING_TYPE_INT codes"
| "scalar_code codes c_uint = PYCLUSTERING_TYPE_UNSIGNED_INT codes"
| "scalar_code codes c_float = PYCLUSTERING_TYPE_FLOAT codes"
| "scalar_code codes c_double = PYCLUSTERING_TYPE_DOUBLE codes"
| "scalar_code codes c_long = PYCLUSTERING_TYPE_LONG codes"
| "scalar_code codes c_ulong = PYCLUSTERING_TYPE_UNSIGNED_LONG codes"

definition recognized_codes :: "pyclustering_type_data \<Rightarrow> nat list" where
  "recognized_codes codes =
     [PYCLUSTERING_TYPE_INT codes, PYCLUSTERING_TYPE_UNSIGNED_INT codes,
      PYCLUSTERING_TYPE_FLOAT codes, PYCLUSTERING_TYPE_DOUBLE codes,
      PYCLUSTERING_TYPE_LONG codes, PYCLUSTERING_TYPE_UNSIGNED_LONG codes,
      PYCLUSTERING_TYPE_LIST codes]"

text \<open>A memory that holds zeros everywhere, to build examples from.\<close>

definition zero_memory :: "('f::zero) memory" where
  "zero_memory =
     \<lparr>data_representation_at = (\<lambda>a. \<lparr>number_objects = 0, dimension = 0, pointer_objects = 0\<rparr>),
      clustering_result_at = (\<lambda>a. \<lparr>number_clusters = 0, pointer_clusters = 0\<rparr>),
      cluster_representation_at =
        (\<lambda>a i. \<lparr>cluster_representation.number_objects = 0,
                 cluster_representation.pointer_objects = 0\<rparr>),
      dynamic_result_at = (\<lambda>a. \<lparr>size_dynamic = 0, size_network = 0, times' = 0, dynamic = 0\<rparr>),
      pyclustering_package_at = (\<lambda>a. \<lparr>package_size = 0, package_type = 0, package_data = 0\<rparr>),
      pointer_at = (\<lambda>a i. 0),
      c_int_at = (\<lambda>a i. 0),
      c_uint_at = (\<lambda>a i. 0),
      c_float_at = (\<lambda>a i. 0),
      c_double_at = (\<lambda>a i. 0),
      c_long_at = (\<lambda>a i. 0),
      c_ulong_at = (\<lambda>a i. 0),
      last_alloc = 0\<rparr>"

definition example_codes :: pyclustering_type_data where
  "example_codes =
     \<lparr>PYCLUSTERING_TYPE_INT = 0, PYCLUSTERING_TYPE_UNSIGNED_INT = 1,
      PYCLUSTERING_TYPE_FLOAT = 2, PYCLUSTERING_TYPE_DOUBLE = 3,
      PYCLUSTERING_TYPE_LONG = 4, PYCLUSTERING_TYPE_UNSIGNED_LONG = 5,
      PYCLUSTERING_TYPE_LIST = 6\<rparr>"

text \<open>
  Packages in memory: at 1 the list of the packages at 2 and 3; at 2 the integers 1, 2, 3;
  at 3 the list of the packages at 4 and 5; at 4 the integer 4; at 5 the integers 5, 6;
  at 6 a package with the unknown type code 7; at 7 the list of the packages at 2 and 6;
  at 8 an empty package with the unknown type code 7; at 9 a list package whose second
  pointer is NULL.
\<close>

definition package_memory :: "real memory" where
  "package_memory =
     zero_memory
       \<lparr>pyclustering_package_at :=
          (\<lambda>a. \<lparr>package_size = 0, package_type = 0, package_data = 0\<rparr>)
          (1 := \<lparr>package_size = 2, package_type = 6, package_data = 10\<rparr>,
           2 := \<lparr>package_size = 3, package_type = 0, package_data = 20\<rparr>,
           3 := \<lparr>package_size = 2, package_type = 6, package_data = 30\<rparr>,
           4 := \<lparr>package_size = 1, package_type = 0, package_data = 40\<rparr>,
           5 := \<lparr>package_size = 2, package_type = 0, package_data = 50\<rparr>,
           6 := \<lparr>package_size = 1, package_type = 7, package_data = 60\<rparr>,
           7 := \<lparr>package_size = 2, package_type = 6, package_data = 70\<rparr>,
           8 := \<lparr>package_size = 0, package_type = 7, package_data = 0\<rparr>,
           9 := \<lparr>package_size = 2, package_type = 6, package_data = 90\<rparr>),
        pointer_at :=
          (\<lambda>a i. 0)
          (10 := (\<lambda>i. 0)(0 := 2, 1 := 3),
           30 := (\<lambda>i. 0)(0 := 4, 1 := 5),
           70 := (\<lambda>i. 0)(0 := 2, 1 := 6),
           90 := (\<lambda>i. 0)(0 := 2, 1 := 0)),
        c_int_at :=
          (\<lambda>a i. 0)
          (20 := (\<lambda>i. 0)(0 := 1, 1 := 2, 2 := 3),
           40 := (\<lambda>i. 0)(0 := 4),
           50 := (\<lambda>i. 0)(0 := 5, 1 := 6))\<rparr>"

text \<open>
  Results in memory: at 5 a clustering result with the groups \<open>[0, 2, 4]\<close> and \<open>[1, 3]\<close>;
  at 2 a dynamic of 3 steps of a network of 2 oscillators, with the times 0.0, 0.1, 0.2 and
  the rows \<open>[0.5, 0.5]\<close>, \<open>[0.6, 0.4]\<close>, \<open>[0.7, 0.3]\<close>; at 3 the same with 0 steps, at 4
  the same with a network of size 0.
\<close>

definition result_memory :: "real memory" where
  "result_memory =
     zero_memory
       \<lparr>clustering_result_at :=
          (\<lambda>a. \<lparr>number_clusters = 0, pointer_clusters = 0\<rparr>)
          (5 := \<lparr>number_clusters = 2, pointer_clusters = 10\<rparr>),
        cluster_representation_at :=
          (\<lambda>a i. \<lparr>cluster_representation.number_objects = 0,
                   cluster_representation.pointer_objects = 0\<rparr>)
          (10 := (\<lambda>i. \<lparr>cluster_representation.number_objects = 0,
                         cluster_representation.pointer_objects = 0\<rparr>)
                 (0 := \<lparr>cluster_representation.number_objects = 3,
                         cluster_representation.pointer_objects = 20\<rparr>,
                  1 := \<lparr>cluster_representation.number_objects = 2,
                         cluster_representation.pointer_objects = 30\<rparr>)),
        dynamic_result_at :=
          (\<lambda>a. \<lparr>size_dynamic = 0, size_network = 0, times' = 0, dynamic = 0\<rparr>)
          (2 := \<lparr>size_dynamic = 3, size_network = 2, times' = 40, dynamic = 50\<rparr>,
           3 := \<lparr>size_dynamic = 0, size_network = 2, times' = 40, dynamic = 50\<rparr>,
           4 := \<lparr>size_dynamic = 3, size_network = 0, times' = 40, dynamic = 50\<rparr>),
        pointer_at := (\<lambda>a i. 0)(50 := (\<lambda>i. 0)(0 := 60, 1 := 61, 2 := 62)),
        c_uint_at :=
          (\<lambda>a i. 0)
          (20 := (\<lambda>i. 0)(0 := 0, 1 := 2, 2 := 4),
           30 := (\<lambda>i. 0)(0 := 1, 1 := 3)),
        c_double_at :=
          (\<lambda>a i. 0)
          (40 := (\<lambda>i. 0)(0 := 0, 1 := 1 / 10, 2 := 2 / 10),
           60 := (\<lambda>i. 0)(0 := 5 / 10, 1 := 5 / 10),
           61 := (\<lambda>i. 0)(0 := 6 / 10, 1 := 4 / 10),
           62 := (\<lambda>i. 0)(0 := 7 / 10, 1 := 3 / 10)),
        last_alloc := 100\<rparr>"

text \<open>
  Notions for the encoder. \<open>read_data_representation\<close> reads an encoded data set back the
  way CCORE reads it: \<open>number_objects\<close> rows of \<open>dimension\<close> values, through the row pointers.
  \<open>same_results\<close> relates two memories that agree on everything the decoders of results and
  packages read, apart from doubles and pointers. \<open>header_allocated\<close> is the memory before
  the first round of the outer loop of \<open>create_pointer_data\<close>, \<open>points_created\<close> the invariant
  of that loop after \<open>k\<close> rounds.
\<close>

definition same_results :: "'f memory \<Rightarrow> 'f memory \<Rightarrow> bool" where
  "same_results m m' \<longleftrightarrow>
     clustering_result_at m' = clustering_result_at m \<and>
     cluster_representation_at m' = cluster_representation_at m \<and>
     dynamic_result_at m' = dynamic_result_at m \<and>
     pyclustering_package_at m' = pyclustering_package_at m \<and>
     c_int_at m' = c_int_at m \<and> c_uint_at m' = c_uint_at m \<and> c_float_at m' = c_float_at m \<and>
     c_long_at m' = c_long_at m \<and> c_ulong_at m' = c_ulong_at m"

definition header_allocated :: "'f list list \<Rightarrow> 'f memory \<Rightarrow> 'f memory" where
  "header_allocated sample m0 =
     m0\<lparr>data_representation_at := (data_representation_at m0)
           (Suc (last_alloc m0) :=
              \<lparr>number_objects = length sample, dimension = length (hd sample), pointer_objects = 0\<rparr>),
        pointer_at := (pointer_at m0)
           (Suc (Suc (last_alloc m0)) :=
              (\<lambda>i. if i < length sample then 0 else pointer_at m0 (Suc (Suc (last_alloc m0))) i)),
        last_alloc := Suc (Suc (last_alloc m0))\<rparr>"

definition points_created :: "'f list list \<Rightarrow> nat \<Rightarrow> addr \<Rightarrow> 'f memory \<Rightarrow> nat \<Rightarrow> 'f memory \<Rightarrow> bool" where
  "points_created sample width b m4 k t \<longleftrightarrow>
     last_alloc t = last_alloc m4 + k \<and>
     data_representation_at t = data_representation_at m4 \<and>
     same_results m4 t \<and>
     (\<forall>i. pointer_at t b i = (if i < k then last_alloc m4 + 1 + i else pointer_at m4 b i)) \<and>
     (\<forall>i<k. \<forall>d<width. c_double_at t (last_alloc m4 + 1 + i) d = sample ! i ! d)"

definition read_data_representation :: "'f memory \<Rightarrow> addr \<Rightarrow> 'f list list" where
  "read_data_representation m input_data =
     map (\<lambda>index.
            map (c_double_at m
                   (pointer_at m (data_representation.pointer_objects (data_representation_at m input_data)) index))
              [0..<dimension (data_representation_at m input_data)])
       [0..<data_representation.number_objects (data_representation_at m input_data)]"

text \<open>
  A library for the examples: the clustering entry points return the result at 5, the
  simulation the result at 2, the reader of a map the package at 1; releasing a result
  clears its header. Two process states that have made no call yet.
\<close>

definition example_ccore :: "real ccore" where
  "example_ccore name args m =
     (if name = ''dbscan_algorithm'' \<or> name = ''hierarchical_algorithm'' then (5, m)
      else if name = ''simulate_sync_network'' then (2, m)
      else if name = ''som_get_weights'' then (1, m)
      else if name = ''free_clustering_result'' then
        (case args of
           [ArgInteger result] \<Rightarrow>
             (0, m\<lparr>clustering_result_at := (clustering_result_at m)
                      (result := \<lparr>number_clusters = 0, pointer_clusters = 0\<rparr>)\<rparr>)
         | _ \<Rightarrow> (0, m))
      else if name = ''free_dynamic_result'' then
        (case args of
           [ArgInteger result] \<Rightarrow>
             (0, m\<lparr>dynamic_result_at := (dynamic_result_at m)
                      (result := \<lparr>size_dynamic = 0, size_network = 0, times' = 0, dynamic = 0\<rparr>)\<rparr>)
         | _ \<Rightarrow> (0, m))
      else (0, m))"

definition result_process :: "real process" where
  "result_process = \<lparr>heap = result_memory, calls = []\<rparr>"

definition package_process :: "real process" where
  "package_process = \<lparr>heap = package_memory, calls = []\<rparr>"

text \<open>
  The protocol of the spec for a result handle, written after its words: the entry point
  is called and returns the handle \<open>result\<close>; the result is decoded in the memory the
  entry point has left; then the release entry point is called on \<open>result\<close>, in that same
  memory; the value returned is the one decoded before the release. When the decoder
  raises, the exception leaves the wrapper and nothing is released.
\<close>

definition decode_then_release ::
  "'f ccore \<Rightarrow> string \<Rightarrow> 'f carg list \<Rightarrow> string \<Rightarrow> ('f memory \<Rightarrow> addr \<Rightarrow> error + 'a)
     \<Rightarrow> 'f process \<Rightarrow> (error + 'a) \<times> 'f process" where
  "decode_then_release ccore entry args release decode w =
     (case invoke ccore entry args w of
        (result, w1) \<Rightarrow>
          (case decode (heap w1) result of
             Inl e \<Rightarrow> (Inl e, w1)
           | Inr v \<Rightarrow> (Inr v, snd (invoke ccore release [ArgInteger result] w1))))"

text \<open>What \<open>dbscan\<close> makes of the decoded list: the last group is the noise.\<close>

definition split_noise :: "bool \<Rightarrow> nat list list \<Rightarrow> error + dbscan_result" where
  "split_noise return_noise list_of_clusters =
     (case getitem list_of_clusters (int (length list_of_clusters) - 1) of
        Inl e \<Rightarrow> Inl e
      | Inr noise \<Rightarrow>
          if return_noise
          then Inr (ClustersAndNoise (remove1 noise list_of_clusters) noise)
          else Inr (Clusters (remove1 noise list_of_clusters)))"

section \<open>Properties of the loops\<close>

lemma for_append_Inr_iff: "for_append is body = Inr xs \<longleftrightarrow> map body is = map Inr xs"
proof (induction "is" arbitrary: xs)
  case Nil
  show ?case by auto
next
  case (Cons i rest)
  note IH = Cons.IH
  show ?case
  proof (cases xs)
    case Nil
    then show ?thesis by (simp split: sum.splits)
  next
    case (Cons y ys)
    from IH[of ys] show ?thesis unfolding Cons by (auto split: sum.splits)
  qed
qed

lemma for_append_map: "(\<And>i. i \<in> set is \<Longrightarrow> body i = Inr (f i)) \<Longrightarrow> for_append is body = Inr (map f is)"
  by (simp add: for_append_Inr_iff)

lemma for_append_first_error:
  assumes "\<And>i. i \<in> set pre \<Longrightarrow> \<exists>x. body i = Inr x" and "body k = Inl e"
  shows "for_append (pre @ k # post) body = Inl e"
  using assms by (induction pre) (fastforce split: sum.splits)+

lemma select_pointer_data_scalar:
  "distinct_codes codes \<Longrightarrow> select_pointer_data codes (scalar_code codes t) = Some (ScalarPointer t)"
  by (cases t) (auto simp: distinct_codes_def select_pointer_data_def)

lemma select_pointer_data_list:
  "distinct_codes codes \<Longrightarrow> select_pointer_data codes (PYCLUSTERING_TYPE_LIST codes) = Some PackagePointer"
  by (auto simp: distinct_codes_def select_pointer_data_def)

lemma select_pointer_data_None:
  "select_pointer_data codes t = None \<longleftrightarrow> t \<notin> set (recognized_codes codes)"
  by (auto simp: recognized_codes_def select_pointer_data_def)

lemma scalar_code_not_list:
  "distinct_codes codes \<Longrightarrow> scalar_code codes t \<noteq> PYCLUSTERING_TYPE_LIST codes"
  by (cases t) (auto simp: distinct_codes_def)

lemma for_each_append:
  "for_each (xs @ ys) body s =
     (case for_each xs body s of (Some e, s') \<Rightarrow> (Some e, s') | (None, s') \<Rightarrow> for_each ys body s')"
  by (induction xs arbitrary: s) (auto split: prod.splits option.splits)

lemma for_each_upt_invariant:
  assumes "P 0 s"
    and "\<And>k t. k < n \<Longrightarrow> P k t \<Longrightarrow> \<exists>t'. body k t = (None, t') \<and> P (Suc k) t'"
  shows "\<exists>s'. for_each [0..<n] body s = (None, s') \<and> P n s'"
  using assms(2)
proof (induction n)
  case 0
  with assms(1) show ?case by simp
next
  case (Suc n)
  then obtain s' where s': "for_each [0..<n] body s = (None, s')" "P n s'"
    by (metis less_Suc_eq)
  from Suc.prems[OF lessI s'(2)] obtain t' where "body n s' = (None, t')" "P (Suc n) t'"
    by blast
  with s' show ?case by (simp add: for_each_append)
qed

lemma for_each_preserves:
  assumes "Q s" and "\<And>k t. Q t \<Longrightarrow> Q (snd (body k t))"
  shows "Q (snd (for_each is body s))"
  using assms(1)
proof (induction "is" arbitrary: s)
  case Nil
  then show ?case by simp
next
  case (Cons i rest)
  from assms(2)[OF Cons.prems, of i] have q: "Q (snd (body i s))" .
  show ?case
  proof (cases "body i s")
    case (Pair e t)
    with q have "Q t" by simp
    with Pair Cons.IH[of t] show ?thesis by (cases e) auto
  qed
qed

lemma getitem_nat: "index < length xs \<Longrightarrow> getitem xs (int index) = Inr (xs ! index)"
  by (simp add: getitem_def)

lemma getitem_nat_out: "length xs \<le> index \<Longrightarrow> getitem xs (int index) = Inl IndexError"
  by (simp add: getitem_def)


lemma getitem_last:
  "getitem xs (int (length xs) - 1) = (if xs = [] then Inl IndexError else Inr (last xs))"
  by (cases "xs = []") (auto simp: getitem_def last_conv_nth nat_diff_distrib')

lemma remove1_last:
  assumes "xs \<noteq> []" and "last xs \<notin> set (butlast xs)"
  shows "remove1 (last xs) xs = butlast xs"
proof -
  have "remove1 (last xs) (butlast xs @ [last xs]) = butlast xs"
    using assms(2) by (simp add: remove1_append)
  with assms(1) show ?thesis by simp
qed

section \<open>The tagged package decoder\<close>

lemma for_append_raises:
  "for_append [0..<n] (\<lambda>index. Inl e) = (if n = 0 then Inr [] else Inl e)"
  by (cases n) (simp_all add: upt_conv_Cons del: upt_Suc)

lemma unknown_tag_raises:
  assumes "\<not> equals_zero h" "address h \<noteq> 0"
    "package_type (pyclustering_package_at m (address h)) \<notin> set (recognized_codes codes)"
  shows "extract_pyclustering_package debug (Suc depth) codes m h =
    (if debug then Inl AssertionError
     else if package_size (pyclustering_package_at m (address h)) = 0 then Inr []
     else Inl TypeError)"
proof -
  from assms(3) have "package_type (pyclustering_package_at m (address h)) \<noteq>
      PYCLUSTERING_TYPE_LIST codes"
    by (auto simp: recognized_codes_def)
  with assms show ?thesis
    by (simp add: Let_def select_pointer_data_None[symmetric] for_append_raises)
qed

lemma scalar_package_decodes:
  assumes "distinct_codes codes" "\<not> equals_zero h" "address h \<noteq> 0"
    "package_type (pyclustering_package_at m (address h)) = scalar_code codes t"
    "0 < package_size (pyclustering_package_at m (address h)) \<Longrightarrow>
       package_data (pyclustering_package_at m (address h)) \<noteq> 0"
  shows "extract_pyclustering_package debug (Suc depth) codes m h =
    Inr (map (scalar_at m t (package_data (pyclustering_package_at m (address h))))
          [0..<package_size (pyclustering_package_at m (address h))])"
proof -
  let ?p = "pyclustering_package_at m (address h)"
  have "for_append [0..<package_size ?p] (read_scalar m t (package_data ?p)) =
        Inr (map (scalar_at m t (package_data ?p)) [0..<package_size ?p])"
    using assms(5) by (intro for_append_map) (auto simp: read_scalar_def)
  with assms(1-4) show ?thesis
    by (simp add: Let_def select_pointer_data_scalar scalar_code_not_list)
qed

lemma list_package_decodes:
  assumes "distinct_codes codes" "\<not> equals_zero h" "address h \<noteq> 0"
    "package_type (pyclustering_package_at m (address h)) = PYCLUSTERING_TYPE_LIST codes"
    "0 < package_size (pyclustering_package_at m (address h)) \<Longrightarrow>
       package_data (pyclustering_package_at m (address h)) \<noteq> 0"
    "\<And>i. i < package_size (pyclustering_package_at m (address h)) \<Longrightarrow>
       extract_pyclustering_package debug depth codes m
         (Pointer (pointer_at m (package_data (pyclustering_package_at m (address h))) i)) = Inr (sub i)"
  shows "extract_pyclustering_package debug (Suc depth) codes m h =
    Inr (map (\<lambda>i. PyList (sub i)) [0..<package_size (pyclustering_package_at m (address h))])"
proof -
  let ?p = "pyclustering_package_at m (address h)"
  have "for_append [0..<package_size ?p] (\<lambda>index.
          case read_pointer m (package_data ?p) index of
            Inl e \<Rightarrow> Inl e
          | Inr sub \<Rightarrow> map_sum id PyList (extract_pyclustering_package debug depth codes m (Pointer sub))) =
        Inr (map (\<lambda>i. PyList (sub i)) [0..<package_size ?p])"
    using assms(5,6) by (intro for_append_map) (auto simp: read_pointer_def)
  with assms(1-4) show ?thesis
    by (simp add: Let_def select_pointer_data_list)
qed

lemma list_package_fails:
  assumes "distinct_codes codes" "\<not> equals_zero h" "address h \<noteq> 0"
    "package_type (pyclustering_package_at m (address h)) = PYCLUSTERING_TYPE_LIST codes"
    "package_data (pyclustering_package_at m (address h)) \<noteq> 0"
    "k < package_size (pyclustering_package_at m (address h))"
    "\<And>i. i < k \<Longrightarrow> \<exists>v.
       extract_pyclustering_package debug depth codes m
         (Pointer (pointer_at m (package_data (pyclustering_package_at m (address h))) i)) = Inr v"
    "extract_pyclustering_package debug depth codes m
         (Pointer (pointer_at m (package_data (pyclustering_package_at m (address h))) k)) = Inl e"
  shows "extract_pyclustering_package debug (Suc depth) codes m h = Inl e"
proof -
  let ?p = "pyclustering_package_at m (address h)"
  let ?body = "\<lambda>index.
          case read_pointer m (package_data ?p) index of
            Inl e \<Rightarrow> Inl e
          | Inr sub \<Rightarrow> map_sum id PyList (extract_pyclustering_package debug depth codes m (Pointer sub))"
  have "[0..<k + (package_size ?p - k)] = [0..<k] @ [k..<k + (package_size ?p - k)]"
    by (rule upt_add_eq_append) simp
  with assms(6) have split: "[0..<package_size ?p] = [0..<k] @ k # [Suc k..<package_size ?p]"
    by (simp add: upt_conv_Cons)
  have "for_append ([0..<k] @ k # [Suc k..<package_size ?p]) ?body = Inl e"
  proof (rule for_append_first_error)
    fix i assume "i \<in> set [0..<k]"
    then have "i < k" by simp
    from assms(7)[OF this] assms(5) show "\<exists>x. ?body i = Inr x"
      by (auto simp: read_pointer_def)
  next
    from assms(5,8) show "?body k = Inl e" by (simp add: read_pointer_def)
  qed
  with split assms(1-4) show ?thesis
    by (simp add: Let_def select_pointer_data_list)
qed

lemma extract_pyclustering_package_depth_mono:
  "extract_pyclustering_package debug d codes m h = Inr v \<Longrightarrow> d \<le> d' \<Longrightarrow>
   extract_pyclustering_package debug d' codes m h = Inr v"
proof (induction d arbitrary: h v d')
  case 0
  then show ?case by simp
next
  case (Suc d)
  then obtain e where d': "d' = Suc e" and le: "d \<le> e" by (cases d') auto
  show ?case
  proof (cases "select_pointer_data codes (package_type (pyclustering_package_at m (address h)))")
    case None
    with Suc.prems show ?thesis unfolding d' by (simp add: Let_def split: if_splits)
  next
    case (Some pt)
    show ?thesis
    proof (cases pt)
      case (ScalarPointer t)
      with Some Suc.prems show ?thesis unfolding d' by (simp add: Let_def split: if_splits)
    next
      case PackagePointer
      show ?thesis
      proof (cases "equals_zero h \<or> address h = 0")
        case True
        with Suc.prems show ?thesis unfolding d' by (auto simp add: Let_def split: if_splits)
      next
        case False
        let ?p = "pyclustering_package_at m (address h)"
        let ?body = "\<lambda>dd index. case read_pointer m (package_data ?p) index of
                   Inl e \<Rightarrow> Inl e
                 | Inr sub \<Rightarrow> map_sum id PyList (extract_pyclustering_package debug dd codes m (Pointer sub))"
        from False Some PackagePointer Suc.prems(1)
        have *: "map (?body d) [0..<package_size ?p] = map Inr v"
          by (simp add: Let_def for_append_Inr_iff)
        have "map (?body e) [0..<package_size ?p] = map Inr v"
        proof (rule nth_equalityI)
          show "length (map (?body e) [0..<package_size ?p]) = length (map Inr v :: (error + 'a pyvalue) list)"
            using map_eq_imp_length_eq[OF *] by simp
        next
          fix i assume "i < length (map (?body e) [0..<package_size ?p])"
          then have i: "i < package_size ?p" by simp
          have len: "length v = package_size ?p" using map_eq_imp_length_eq[OF *] by simp
          have "map (?body d) [0..<package_size ?p] ! i = (map Inr v :: (error + 'a pyvalue) list) ! i"
            by (simp only: *)
          with i len have bi: "?body d i = Inr (v ! i)" by simp
          have "?body e i = Inr (v ! i)"
          proof (cases "read_pointer m (package_data ?p) i")
            case (Inl x)
            with bi show ?thesis by simp
          next
            case (Inr sub)
            with bi obtain w where "extract_pyclustering_package debug d codes m (Pointer sub) = Inr w" "v ! i = PyList w"
              by (cases "extract_pyclustering_package debug d codes m (Pointer sub)") auto
            with Suc.IH[OF this(1) le] Inr show ?thesis by simp
          qed
          with i len show "map (?body e) [0..<package_size ?p] ! i = (map Inr v :: (error + 'a pyvalue) list) ! i" by simp
        qed
        with False Some PackagePointer show ?thesis unfolding d'
          by (simp add: Let_def for_append_Inr_iff)
      qed
    qed
  qed
qed


text \<open>
  C1: decoding is recursive and keeps the foreign order. For a package behind a handle
  that is not NULL, with pairwise different codes and a data pointer that is not NULL
  unless the package is empty:
  \<^item> a package with the list code decodes to the list of the decoded sub-packages,
    in the order of the pointers in its data;
  \<^item> a package with the code of a scalar type decodes to the flat list of its \<open>size\<close>
    values, in the order of the memory;
  \<^item> a result obtained with some recursion depth is the result for every larger depth;
  \<^item> the list of the packages \<open>[1, 2, 3]\<close> and \<open>[[4], [5, 6]]\<close> decodes to
    \<open>[[1, 2, 3], [[4], [5, 6]]]\<close>.
\<close>

theorem package_decoding_recursive_order_preserving:
  fixes m :: "'f memory" and h :: handle
  defines "p \<equiv> pyclustering_package_at m (address h)"
  assumes "distinct_codes codes" and "\<not> equals_zero h" and "address h \<noteq> 0"
    and "0 < package_size p \<Longrightarrow> package_data p \<noteq> 0"
  shows
    "(package_type p = PYCLUSTERING_TYPE_LIST codes \<and>
      (\<forall>i<package_size p.
         extract_pyclustering_package debug depth codes m (Pointer (pointer_at m (package_data p) i)) =
         Inr (sub i)) \<longrightarrow>
      extract_pyclustering_package debug (Suc depth) codes m h =
      Inr (map (\<lambda>i. PyList (sub i)) [0..<package_size p])) \<and>
     (package_type p = scalar_code codes t \<longrightarrow>
      extract_pyclustering_package debug (Suc depth) codes m h =
      Inr (map (scalar_at m t (package_data p)) [0..<package_size p])) \<and>
     (\<forall>v d. extract_pyclustering_package debug depth codes m h = Inr v \<and> depth \<le> d \<longrightarrow>
        extract_pyclustering_package debug d codes m h = Inr v) \<and>
     extract_pyclustering_package debug 3 example_codes package_memory (Integer 1) =
     Inr [PyList [PyInt 1, PyInt 2, PyInt 3],
          PyList [PyList [PyInt 4], PyList [PyInt 5, PyInt 6]]]"
proof (intro conjI impI allI)
  assume "package_type p = PYCLUSTERING_TYPE_LIST codes \<and>
      (\<forall>i<package_size p.
         extract_pyclustering_package debug depth codes m (Pointer (pointer_at m (package_data p) i)) =
         Inr (sub i))"
  with assms show "extract_pyclustering_package debug (Suc depth) codes m h =
      Inr (map (\<lambda>i. PyList (sub i)) [0..<package_size p])"
    unfolding p_def by (intro list_package_decodes) auto
next
  assume "package_type p = scalar_code codes t"
  with assms show "extract_pyclustering_package debug (Suc depth) codes m h =
      Inr (map (scalar_at m t (package_data p)) [0..<package_size p])"
    unfolding p_def by (intro scalar_package_decodes) auto
next
  fix v d
  assume "extract_pyclustering_package debug depth codes m h = Inr v \<and> depth \<le> d"
  then show "extract_pyclustering_package debug d codes m h = Inr v"
    using extract_pyclustering_package_depth_mono by blast
next
  show "extract_pyclustering_package debug 3 example_codes package_memory (Integer 1) =
     Inr [PyList [PyInt 1, PyInt 2, PyInt 3],
          PyList [PyList [PyInt 4], PyList [PyInt 5, PyInt 6]]]"
    by code_simp
qed

text \<open>The witness decodes the inner list package at 3 and the scalar package at 2.\<close>

theorem package_decoding_recursive_order_preserving_witness:
  "extract_pyclustering_package True 3 example_codes package_memory (Integer 3) =
     Inr (map (\<lambda>i. PyList (if i = 0 then [PyInt 4] else [PyInt 5, PyInt 6])) [0..<2]) \<and>
   extract_pyclustering_package True 2 example_codes package_memory (Pointer 2) =
     Inr (map (scalar_at package_memory c_int 20) [0..<3]) \<and>
   extract_pyclustering_package True 5 example_codes package_memory (Pointer 2) =
     Inr [PyInt 1, PyInt 2, PyInt 3]"
proof -
  have codes: "distinct_codes example_codes" by code_simp
  have p3: "pyclustering_package_at package_memory 3 =
      \<lparr>package_size = 2, package_type = 6, package_data = 30\<rparr>"
    by (simp add: package_memory_def)
  have p2: "pyclustering_package_at package_memory 2 =
      \<lparr>package_size = 3, package_type = 0, package_data = 20\<rparr>"
    by (simp add: package_memory_def)
  have subs: "\<forall>i<2. extract_pyclustering_package True 2 example_codes package_memory
                 (Pointer (pointer_at package_memory 30 i)) =
               Inr (if i = 0 then [PyInt 4] else [PyInt 5, PyInt 6])"
  proof (intro allI impI)
    fix i :: nat assume "i < 2"
    then consider "i = 0" | "i = 1" by linarith
    then show "extract_pyclustering_package True 2 example_codes package_memory
                 (Pointer (pointer_at package_memory 30 i)) =
               Inr (if i = 0 then [PyInt 4] else [PyInt 5, PyInt 6])"
    proof cases
      case 1
      show ?thesis unfolding 1 by code_simp
    next
      case 2
      show ?thesis unfolding 2 by code_simp
    qed
  qed
  have stable: "extract_pyclustering_package True 1 example_codes package_memory (Pointer 2) =
      Inr [PyInt 1, PyInt 2, PyInt 3]"
    by code_simp
  have s2: "(2::nat) = Suc 1" and s3: "(3::nat) = Suc 2" by simp_all
  have d3: "0 < package_size (pyclustering_package_at package_memory (address (Integer 3))) \<Longrightarrow>
      package_data (pyclustering_package_at package_memory (address (Integer 3))) \<noteq> 0"
    by (simp add: p3)
  have d2: "0 < package_size (pyclustering_package_at package_memory (address (Pointer 2))) \<Longrightarrow>
      package_data (pyclustering_package_at package_memory (address (Pointer 2))) \<noteq> 0"
    by (simp add: p2)
  have nz3: "\<not> equals_zero (Integer 3)" and na3: "address (Integer 3) \<noteq> 0"
    and nz2: "\<not> equals_zero (Pointer 2)" and na2: "address (Pointer 2) \<noteq> 0"
    by simp_all
  note L = package_decoding_recursive_order_preserving [where codes = example_codes and h = "Integer 3" and m = package_memory
      and debug = True and depth = 2 and sub = "\<lambda>i. if i = 0 then [PyInt 4] else [PyInt 5, PyInt 6]" and t = c_int,
      OF codes nz3 na3 d3]
  note S = package_decoding_recursive_order_preserving [where codes = example_codes and h = "Pointer 2" and m = package_memory
      and debug = True and depth = 1 and sub = "\<lambda>i. []" and t = c_int,
      OF codes nz2 na2 d2]
  have list: "extract_pyclustering_package True 3 example_codes package_memory (Integer 3) =
     Inr (map (\<lambda>i. PyList (if i = 0 then [PyInt 4] else [PyInt 5, PyInt 6])) [0..<2])"
    using conjunct1[OF L] subs
    by (simp add: p3 example_codes_def del: extract_pyclustering_package.simps)
  have "extract_pyclustering_package True (Suc 1) example_codes package_memory (Pointer 2) =
     Inr (map (scalar_at package_memory c_int 20) [0..<3])"
    using conjunct1[OF conjunct2[OF S]]
    by (simp add: p2 example_codes_def del: extract_pyclustering_package.simps)
  then have scalar: "extract_pyclustering_package True 2 example_codes package_memory (Pointer 2) =
     Inr (map (scalar_at package_memory c_int 20) [0..<3])"
    unfolding Suc_1 .
  have deeper: "extract_pyclustering_package True 5 example_codes package_memory (Pointer 2) =
     Inr [PyInt 1, PyInt 2, PyInt 3]"
  proof (rule conjunct1[OF conjunct2[OF conjunct2[OF S]], rule_format])
    show "extract_pyclustering_package True 1 example_codes package_memory (Pointer 2) =
        Inr [PyInt 1, PyInt 2, PyInt 3] \<and> 1 \<le> (5::nat)"
      using stable by (simp del: extract_pyclustering_package.simps)
  qed
  from list scalar deeper show ?thesis by blast
qed

text \<open>
  When a package with an unknown type code is the first failing element of a list package,
  the list package fails the same way: the exception is not caught on the way up.
\<close>

lemma unknown_tag_in_list_raises:
  fixes m :: "'f memory"
  assumes "distinct_codes codes" "\<not> equals_zero h'" "address h' \<noteq> 0"
    "package_type (pyclustering_package_at m (address h')) = PYCLUSTERING_TYPE_LIST codes"
    "package_data (pyclustering_package_at m (address h')) \<noteq> 0"
    "k < package_size (pyclustering_package_at m (address h'))"
    "\<And>i. i < k \<Longrightarrow> \<exists>v. extract_pyclustering_package True (Suc depth) codes m
        (Pointer (pointer_at m (package_data (pyclustering_package_at m (address h'))) i)) = Inr v"
    "pointer_at m (package_data (pyclustering_package_at m (address h'))) k \<noteq> 0"
    "package_type (pyclustering_package_at m
        (pointer_at m (package_data (pyclustering_package_at m (address h'))) k))
       \<notin> set (recognized_codes codes)"
  shows "extract_pyclustering_package True (Suc (Suc depth)) codes m h' = Inl AssertionError"
proof (rule list_package_fails[where k = k, OF assms(1-7)])
  show "extract_pyclustering_package True (Suc depth) codes m
       (Pointer (pointer_at m (package_data (pyclustering_package_at m (address h'))) k)) =
     Inl AssertionError"
    using unknown_tag_raises[where debug = True and m = m and codes = codes and depth = depth
        and h = "Pointer (pointer_at m (package_data (pyclustering_package_at m (address h'))) k)"]
      assms(8,9)
    by simp
qed

text \<open>
  C4: the packages at 6 and 8 carry the type code 7, which is none of the seven codes.
  With assertions executed, decoding either raises \<open>AssertionError\<close>, and so does decoding
  the list package at 7 that contains the package at 6. Under \<open>python -O\<close> the \<open>assert(0)\<close>
  is gone: the empty package at 8 decodes to the empty list, as an empty package of a known
  type would, and the package at 6, of size 1, raises \<open>TypeError\<close>.
\<close>

theorem unknown_type_tag_without_assertions:
  "extract_pyclustering_package False 1 example_codes package_memory (Integer 8) = Inr [] \<and>
   extract_pyclustering_package False 1 example_codes package_memory (Integer 6) = Inl TypeError \<and>
   extract_pyclustering_package True 1 example_codes package_memory (Integer 8) =
     Inl AssertionError \<and>
   extract_pyclustering_package True 1 example_codes package_memory (Integer 6) =
     Inl AssertionError \<and>
   extract_pyclustering_package True 2 example_codes package_memory (Integer 7) =
     Inl AssertionError"
  by code_simp

text \<open>
  C6: the test \<open>ccore_package_pointer == 0\<close> holds for the integer 0, and the decoder then
  returns the empty list before the first read. It never holds for a ctypes pointer
  instance: a NULL pointer passes the test and the read of its header raises
  \<open>ValueError\<close>. The handles of sub-packages are pointer instances, so the list package at
  9, whose second pointer is NULL, does not decode.
\<close>

theorem null_pointer_handle_raises:
  "extract_pyclustering_package debug (Suc depth) codes m (Integer 0) = Inr [] \<and>
   extract_pyclustering_package debug (Suc depth) codes m (Pointer 0) = Inl ValueError \<and>
   extract_pyclustering_package True 2 example_codes package_memory (Integer 9) = Inl ValueError"
proof (intro conjI)
  show "extract_pyclustering_package True 2 example_codes package_memory (Integer 9) =
      Inl ValueError"
    by code_simp
qed simp_all

section \<open>The decoders of clustering results and dynamics\<close>

lemma extract_clusters_eq:
  fixes m :: "'f memory"
  assumes "ccore_result \<noteq> 0"
    and "0 < number_clusters (clustering_result_at m ccore_result) \<Longrightarrow>
           pointer_clusters (clustering_result_at m ccore_result) \<noteq> 0"
    and "\<And>i. i < number_clusters (clustering_result_at m ccore_result) \<Longrightarrow>
           0 < cluster_representation.number_objects
                 (cluster_representation_at m (pointer_clusters (clustering_result_at m ccore_result)) i) \<Longrightarrow>
           cluster_representation.pointer_objects
             (cluster_representation_at m (pointer_clusters (clustering_result_at m ccore_result)) i) \<noteq> 0"
  shows "extract_clusters m ccore_result =
           Inr (map (\<lambda>i. map (c_uint_at m (cluster_representation.pointer_objects
                                  (cluster_representation_at m
                                     (pointer_clusters (clustering_result_at m ccore_result)) i)))
                            [0..<cluster_representation.number_objects
                                   (cluster_representation_at m
                                      (pointer_clusters (clustering_result_at m ccore_result)) i)])
                    [0..<number_clusters (clustering_result_at m ccore_result)])"
proof -
  let ?r = "clustering_result_at m ccore_result"
  let ?c = "cluster_representation_at m (pointer_clusters ?r)"
  have inner: "for_append [0..<cluster_representation.number_objects (?c i)]
                 (read_uint m (cluster_representation.pointer_objects (?c i))) =
               Inr (map (c_uint_at m (cluster_representation.pointer_objects (?c i)))
                      [0..<cluster_representation.number_objects (?c i)])"
    if "i < number_clusters ?r" for i
    using assms(3)[OF that] by (intro for_append_map) (auto simp: read_uint_def)
  have "for_append [0..<number_clusters ?r] (\<lambda>index_cluster.
             if pointer_clusters ?r = 0 then Inl ValueError
             else for_append [0..<cluster_representation.number_objects (?c index_cluster)]
                    (read_uint m (cluster_representation.pointer_objects (?c index_cluster)))) =
        Inr (map (\<lambda>i. map (c_uint_at m (cluster_representation.pointer_objects (?c i)))
                            [0..<cluster_representation.number_objects (?c i)])
                    [0..<number_clusters ?r])"
    using assms(2) inner by (intro for_append_map) auto
  with assms(1) show ?thesis
    unfolding extract_clusters_def Let_def by simp
qed

lemma extract_dynamics_eq:
  fixes m :: "'f memory"
  assumes "ccore_result \<noteq> 0"
    and "0 < size_dynamic (dynamic_result_at m ccore_result) \<Longrightarrow>
           times' (dynamic_result_at m ccore_result) \<noteq> 0 \<and>
           dynamic (dynamic_result_at m ccore_result) \<noteq> 0"
    and "\<And>i. i < size_dynamic (dynamic_result_at m ccore_result) \<Longrightarrow>
           0 < size_network (dynamic_result_at m ccore_result) \<Longrightarrow>
           pointer_at m (dynamic (dynamic_result_at m ccore_result)) i \<noteq> 0"
  shows "extract_dynamics m ccore_result =
           Inr (map (c_double_at m (times' (dynamic_result_at m ccore_result)))
                  [0..<size_dynamic (dynamic_result_at m ccore_result)],
                map (\<lambda>i. map (c_double_at m (pointer_at m (dynamic (dynamic_result_at m ccore_result)) i))
                           [0..<size_network (dynamic_result_at m ccore_result)])
                    [0..<size_dynamic (dynamic_result_at m ccore_result)])"
proof -
  let ?r = "dynamic_result_at m ccore_result"
  have row: "for_append [0..<size_network ?r] (read_double m (pointer_at m (dynamic ?r) i)) =
             Inr (map (c_double_at m (pointer_at m (dynamic ?r) i)) [0..<size_network ?r])"
    if "i < size_dynamic ?r" for i
    using assms(3)[OF that] by (intro for_append_map) (auto simp: read_double_def)
  have steps: "for_append [0..<size_dynamic ?r] (\<lambda>index.
                  case read_double m (times' ?r) index of
                    Inl e \<Rightarrow> Inl e
                  | Inr time \<Rightarrow>
                      (case read_pointer m (dynamic ?r) index of
                         Inl e \<Rightarrow> Inl e
                       | Inr pointer_dynamic \<Rightarrow>
                           (case for_append [0..<size_network ?r] (read_double m pointer_dynamic) of
                              Inl e \<Rightarrow> Inl e
                            | Inr row \<Rightarrow> Inr (time, row)))) =
      Inr (map (\<lambda>i. (c_double_at m (times' ?r) i,
                      map (c_double_at m (pointer_at m (dynamic ?r) i)) [0..<size_network ?r]))
             [0..<size_dynamic ?r])"
    using assms(2) row by (intro for_append_map) (auto simp: read_double_def read_pointer_def)
  show ?thesis
    unfolding extract_dynamics_def Let_def using assms(1)
    by (simp add: steps comp_def)
qed

text \<open>
  C8: for a result handle that is not NULL, whose group array and whose index arrays
  are not NULL where they are read, \<open>extract_clusters\<close> returns as many groups as the result
  declares, in the order of the group array; group \<open>i\<close> holds as many indices as the group
  declares, in the order of its index array. The indices are returned as they are read:
  nothing compares them with the size of the data set.
\<close>

theorem cluster_decoder_returns_groups_in_order:
  fixes m :: "'f memory" and ccore_result :: addr
  defines "r \<equiv> clustering_result_at m ccore_result"
  defines "c \<equiv> cluster_representation_at m (pointer_clusters r)"
  assumes "ccore_result \<noteq> 0"
    and "0 < number_clusters r \<Longrightarrow> pointer_clusters r \<noteq> 0"
    and "\<And>i. i < number_clusters r \<Longrightarrow> 0 < cluster_representation.number_objects (c i) \<Longrightarrow>
           cluster_representation.pointer_objects (c i) \<noteq> 0"
  shows "extract_clusters m ccore_result =
           Inr (map (\<lambda>i. map (c_uint_at m (cluster_representation.pointer_objects (c i)))
                            [0..<cluster_representation.number_objects (c i)])
                    [0..<number_clusters r]) \<and>
         (\<exists>clusters. extract_clusters m ccore_result = Inr clusters \<and>
            length clusters = number_clusters r \<and>
            (\<forall>i<number_clusters r.
               length (clusters ! i) = cluster_representation.number_objects (c i) \<and>
               (\<forall>j<cluster_representation.number_objects (c i).
                  clusters ! i ! j = c_uint_at m (cluster_representation.pointer_objects (c i)) j)))"
proof -
  have eq: "extract_clusters m ccore_result =
           Inr (map (\<lambda>i. map (c_uint_at m (cluster_representation.pointer_objects (c i)))
                            [0..<cluster_representation.number_objects (c i)])
                    [0..<number_clusters r])"
    using assms(3-5) unfolding c_def r_def by (rule extract_clusters_eq)
  show ?thesis
    by (rule conjI[OF eq], rule exI, rule conjI[OF eq]) simp
qed

text \<open>
  C5, as amended: for a result handle that is not NULL, with arrays that are not NULL
  where they are read, \<open>extract_dynamics\<close> returns the times and the rows in memory order;
  both sequences have \<open>size_dynamic\<close> entries and every row has \<open>size_network\<close> values.
  This holds for every pair of sizes, zero included: no size makes the decoder fail.
\<close>

theorem dynamics_decoder_parallel_sequences:
  fixes m :: "'f memory" and ccore_result :: addr
  defines "r \<equiv> dynamic_result_at m ccore_result"
  assumes "ccore_result \<noteq> 0"
    and "0 < size_dynamic r \<Longrightarrow> times' r \<noteq> 0 \<and> dynamic r \<noteq> 0"
    and "\<And>i. i < size_dynamic r \<Longrightarrow> 0 < size_network r \<Longrightarrow> pointer_at m (dynamic r) i \<noteq> 0"
  shows "extract_dynamics m ccore_result =
           Inr (map (c_double_at m (times' r)) [0..<size_dynamic r],
                map (\<lambda>i. map (c_double_at m (pointer_at m (dynamic r) i)) [0..<size_network r])
                    [0..<size_dynamic r]) \<and>
         (\<exists>ts dyn. extract_dynamics m ccore_result = Inr (ts, dyn) \<and>
            length ts = size_dynamic r \<and> length dyn = size_dynamic r \<and>
            (\<forall>i<size_dynamic r. length (dyn ! i) = size_network r))"
proof -
  have eq: "extract_dynamics m ccore_result =
           Inr (map (c_double_at m (times' r)) [0..<size_dynamic r],
                map (\<lambda>i. map (c_double_at m (pointer_at m (dynamic r) i)) [0..<size_network r])
                    [0..<size_dynamic r])"
    using assms(2-4) unfolding r_def by (rule extract_dynamics_eq)
  show ?thesis
    by (rule conjI[OF eq], (rule exI)+, rule conjI[OF eq]) simp
qed


text \<open>The witness decodes the result at 5.\<close>

theorem cluster_decoder_returns_groups_in_order_witness:
  "extract_clusters result_memory 5 = Inr [[0, 2, 4], [1, 3]]"
proof -
  have r: "clustering_result_at result_memory 5 = \<lparr>number_clusters = 2, pointer_clusters = 10\<rparr>"
    by (simp add: result_memory_def)
  have a: "(5::nat) \<noteq> 0" by simp
  have b: "0 < number_clusters (clustering_result_at result_memory 5) \<Longrightarrow>
      pointer_clusters (clustering_result_at result_memory 5) \<noteq> 0"
    by (simp add: r)
  have c: "cluster_representation.pointer_objects
          (cluster_representation_at result_memory
             (pointer_clusters (clustering_result_at result_memory 5)) i) \<noteq> 0"
    if "i < number_clusters (clustering_result_at result_memory 5)" for i
  proof -
    from that have "i = 0 \<or> i = 1" by (auto simp: r)
    then show ?thesis by (auto simp: r result_memory_def)
  qed
  have u2: "[0..<2] = [0, Suc 0]" and u3: "[0..<3] = [0, Suc 0, 2]"
    by (simp_all add: upt_conv_Cons)
  show ?thesis
    apply (rule trans[OF conjunct1[OF cluster_decoder_returns_groups_in_order[of 5 result_memory]]])
       apply (rule a)
      apply (erule b)
     apply (erule c)
    apply (simp add: r u2)
    apply (simp add: result_memory_def u2 u3)
    done
qed

text \<open>The witness decodes the results at 2 (3 steps, 2 oscillators) and at 4 (network of size 0).\<close>

theorem dynamics_decoder_parallel_sequences_witness:
  "extract_dynamics result_memory 2 =
     Inr ([0, 1 / 10, 2 / 10], [[5 / 10, 5 / 10], [6 / 10, 4 / 10], [7 / 10, 3 / 10]]) \<and>
   extract_dynamics result_memory 4 = Inr ([0, 1 / 10, 2 / 10], [[], [], []])"
proof -
  have r2: "dynamic_result_at result_memory 2 =
      \<lparr>size_dynamic = 3, size_network = 2, times' = 40, dynamic = 50\<rparr>"
    and r4: "dynamic_result_at result_memory 4 =
      \<lparr>size_dynamic = 3, size_network = 0, times' = 40, dynamic = 50\<rparr>"
    by (simp_all add: result_memory_def)
  have a: "(2::nat) \<noteq> 0" "(4::nat) \<noteq> 0" by simp_all
  have b2: "0 < size_dynamic (dynamic_result_at result_memory 2) \<Longrightarrow>
      times' (dynamic_result_at result_memory 2) \<noteq> 0 \<and> dynamic (dynamic_result_at result_memory 2) \<noteq> 0"
    by (simp add: r2)
  have b4: "0 < size_dynamic (dynamic_result_at result_memory 4) \<Longrightarrow>
      times' (dynamic_result_at result_memory 4) \<noteq> 0 \<and> dynamic (dynamic_result_at result_memory 4) \<noteq> 0"
    by (simp add: r4)
  have c2: "pointer_at result_memory (dynamic (dynamic_result_at result_memory 2)) i \<noteq> 0"
    if "i < size_dynamic (dynamic_result_at result_memory 2)" for i
  proof -
    from that have "i = 0 \<or> i = 1 \<or> i = 2" by (auto simp: r2)
    then show ?thesis by (auto simp: r2 result_memory_def)
  qed
  have c4: "pointer_at result_memory (dynamic (dynamic_result_at result_memory 4)) i \<noteq> 0"
    if "0 < size_network (dynamic_result_at result_memory 4)" for i
    using that by (simp add: r4)
  have u2: "[0..<2] = [0, Suc 0]" and u3: "[0..<3] = [0, Suc 0, 2]"
    by (simp_all add: upt_conv_Cons)
  have "extract_dynamics result_memory 2 =
     Inr ([0, 1 / 10, 2 / 10], [[5 / 10, 5 / 10], [6 / 10, 4 / 10], [7 / 10, 3 / 10]])"
    apply (rule trans[OF conjunct1[OF dynamics_decoder_parallel_sequences[of 2 result_memory]]])
       apply (rule a)
      apply (erule b2)
     apply (erule c2)
    apply (simp add: r2 u2 u3)
    apply (simp add: result_memory_def)
    done
  moreover have "extract_dynamics result_memory 4 = Inr ([0, 1 / 10, 2 / 10], [[], [], []])"
    apply (rule trans[OF conjunct1[OF dynamics_decoder_parallel_sequences[of 4 result_memory]]])
       apply (rule a)
      apply (erule b4)
     apply (erule c4)
    apply (simp add: r4 u3)
    apply (simp add: result_memory_def)
    done
  ultimately show ?thesis by (rule conjI)
qed

text \<open>
  C5, counterexample: the result at 3 declares 0 steps, and decoding it returns the pair
  of two empty lists, not an error.
\<close>

theorem zero_step_dynamics_decodes_to_empty:
  "size_dynamic (dynamic_result_at result_memory 3) = 0 \<and>
   extract_dynamics result_memory 3 = Inr ([], [])"
  by code_simp

section \<open>The point-set encoder\<close>

lemma copy_coordinates:
  fixes m :: "'f memory"
  assumes "index < length sample" and "width \<le> length (sample ! index)"
  shows "for_each [0..<width] (copy_coordinate sample index point) m =
         (None, m\<lparr>c_double_at := (c_double_at m)
                     (point := (\<lambda>d. if d < width then sample ! index ! d else c_double_at m point d))\<rparr>)"
proof -
  let ?P = "\<lambda>j t. t = m\<lparr>c_double_at := (c_double_at m)
                     (point := (\<lambda>d. if d < j then sample ! index ! d else c_double_at m point d))\<rparr>"
  have "\<exists>s'. for_each [0..<width] (copy_coordinate sample index point) m = (None, s') \<and> ?P width s'"
  proof (rule for_each_upt_invariant)
    show "?P 0 m" by simp
  next
    fix k t assume k: "k < width" and t: "?P k t"
    from k assms have "getitem sample (int index) = Inr (sample ! index)"
      and "getitem (sample ! index) (int k) = Inr (sample ! index ! k)"
      by (simp_all add: getitem_nat)
    moreover have "(\<lambda>d. if d < k then sample ! index ! d else c_double_at m point d)(k := sample ! index ! k) =
          (\<lambda>d. if d < Suc k then sample ! index ! d else c_double_at m point d)"
      by (auto simp: fun_eq_iff less_Suc_eq)
    ultimately show "\<exists>t'. copy_coordinate sample index point k t = (None, t') \<and> ?P (Suc k) t'"
      by (simp add: t write_double_def copy_coordinate_def)
  qed
  then show ?thesis by auto
qed

lemma copy_coordinates_short:
  fixes m :: "'f memory"
  assumes "index < length sample" and "length (sample ! index) < width"
  shows "fst (for_each [0..<width] (copy_coordinate sample index point) m) = Some IndexError \<and>
         last_alloc (snd (for_each [0..<width] (copy_coordinate sample index point) m)) = last_alloc m"
proof -
  let ?l = "length (sample ! index)"
  have "[0..<?l + (width - ?l)] = [0..<?l] @ [?l..<?l + (width - ?l)]"
    by (rule upt_add_eq_append) simp
  with assms(2) have split: "[0..<width] = [0..<?l] @ ?l # [Suc ?l..<width]"
    by (simp add: upt_conv_Cons)
  have "copy_coordinate sample index point ?l t = (Some IndexError, t)" for t :: "'f memory"
    using assms(1) by (simp add: copy_coordinate_def getitem_nat getitem_nat_out)
  then show ?thesis
    unfolding split by (simp add: for_each_append copy_coordinates[OF assms(1) order_refl])
qed

lemma create_point_ok:
  fixes m :: "('f::zero) memory"
  assumes "index < length sample" and "width \<le> length (sample ! index)"
  shows "create_point sample width b index m =
    (None, m\<lparr>c_double_at := (c_double_at m)
                 (Suc (last_alloc m) :=
                    (\<lambda>d. if d < width then sample ! index ! d else c_double_at m (Suc (last_alloc m)) d)),
              pointer_at := (pointer_at m)(b := (pointer_at m b)(index := Suc (last_alloc m))),
              last_alloc := Suc (last_alloc m)\<rparr>)"
proof -
  have "create_point sample width b index m =
     (None, write_pointer b index (Suc (last_alloc m))
        ((m\<lparr>c_double_at := (c_double_at m)
              (Suc (last_alloc m) := (\<lambda>i. if i < width then 0 else c_double_at m (Suc (last_alloc m)) i)),
            last_alloc := Suc (last_alloc m)\<rparr>)
         \<lparr>c_double_at := (c_double_at (m\<lparr>c_double_at := (c_double_at m)
              (Suc (last_alloc m) := (\<lambda>i. if i < width then 0 else c_double_at m (Suc (last_alloc m)) i)),
            last_alloc := Suc (last_alloc m)\<rparr>))
            (Suc (last_alloc m) := (\<lambda>d. if d < width then sample ! index ! d
                 else c_double_at (m\<lparr>c_double_at := (c_double_at m)
              (Suc (last_alloc m) := (\<lambda>i. if i < width then 0 else c_double_at m (Suc (last_alloc m)) i)),
            last_alloc := Suc (last_alloc m)\<rparr>) (Suc (last_alloc m)) d))\<rparr>))"
    unfolding create_point_def alloc_double_array_def Let_def
    by (simp only: prod.case copy_coordinates[OF assms] option.case)
  also have "\<dots> = (None, m\<lparr>c_double_at := (c_double_at m)
                 (Suc (last_alloc m) :=
                    (\<lambda>d. if d < width then sample ! index ! d else c_double_at m (Suc (last_alloc m)) d)),
              pointer_at := (pointer_at m)(b := (pointer_at m b)(index := Suc (last_alloc m))),
              last_alloc := Suc (last_alloc m)\<rparr>)"
    unfolding write_pointer_def
    by (simp, intro memory.equality) (simp_all add: fun_eq_iff)
  finally show ?thesis .
qed

lemma create_point_short:
  fixes m :: "('f::zero) memory"
  assumes "index < length sample" and "length (sample ! index) < width"
  shows "fst (create_point sample width b index m) = Some IndexError \<and>
         last_alloc (snd (create_point sample width b index m)) = Suc (last_alloc m)"
proof -
  let ?m' = "snd (alloc_double_array width m)"
  let ?point = "fst (alloc_double_array width m)"
  from copy_coordinates_short[OF assms, of ?point ?m']
  obtain t where t: "for_each [0..<width] (copy_coordinate sample index ?point) ?m' = (Some IndexError, t)"
    "last_alloc t = last_alloc ?m'"
    by (cases "for_each [0..<width] (copy_coordinate sample index ?point) ?m'") auto
  have "last_alloc ?m' = Suc (last_alloc m)" by (simp add: alloc_double_array_def Let_def)
  with t show ?thesis
    unfolding create_point_def by (simp add: split_beta)
qed


lemma create_points:
  fixes m4 :: "('f::zero) memory"
  assumes "n \<le> length sample" and "\<And>i. i < n \<Longrightarrow> width \<le> length (sample ! i)"
  shows "\<exists>t. for_each [0..<n] (create_point sample width b) m4 = (None, t) \<and>
             points_created sample width b m4 n t"
proof (rule for_each_upt_invariant)
  show "points_created sample width b m4 0 m4"
    by (simp add: points_created_def same_results_def)
next
  fix k t
  assume k: "k < n" and t: "points_created sample width b m4 k t"
  from k assms have ok: "k < length sample" "width \<le> length (sample ! k)" by auto
  have "points_created sample width b m4 (Suc k)
     (t\<lparr>c_double_at := (c_double_at t)
                 (Suc (last_alloc t) :=
                    (\<lambda>d. if d < width then sample ! k ! d else c_double_at t (Suc (last_alloc t)) d)),
              pointer_at := (pointer_at t)(b := (pointer_at t b)(k := Suc (last_alloc t))),
              last_alloc := Suc (last_alloc t)\<rparr>)"
    using t by (auto simp: points_created_def same_results_def less_Suc_eq)
  then show "\<exists>t'. create_point sample width b k t = (None, t') \<and>
          points_created sample width b m4 (Suc k) t'"
    by (simp add: create_point_ok[OF ok])
qed

lemma create_pointer_data_nonempty:
  fixes m0 :: "('f::zero) memory"
  assumes "sample \<noteq> []"
  shows "create_pointer_data sample m0 =
     (case for_each [0..<length sample]
             (create_point sample (length (hd sample)) (Suc (Suc (last_alloc m0))))
             (header_allocated sample m0) of
        (Some e, m5) \<Rightarrow> (Inl e, m5)
      | (None, m5) \<Rightarrow>
          (Inr (Suc (last_alloc m0)),
           update_data_representation (Suc (last_alloc m0))
             (\<lambda>r. r\<lparr>data_representation.pointer_objects := Suc (Suc (last_alloc m0))\<rparr>) m5))"
proof -
  from assms have g: "getitem sample 0 = Inr (hd sample)"
    by (simp add: getitem_def hd_conv_nth)
  show ?thesis
    unfolding create_pointer_data_def header_allocated_def alloc_pointer_array_def
      alloc_data_representation_def update_data_representation_def Let_def
    by (simp add: g cong: if_cong prod.case_cong option.case_cong)
qed

lemma create_pointer_data_empty:
  fixes m0 :: "('f::zero) memory"
  shows "create_pointer_data [] m0 =
     (Inl IndexError,
      m0\<lparr>data_representation_at := (data_representation_at m0)
           (Suc (last_alloc m0) := \<lparr>number_objects = 0, dimension = 0, pointer_objects = 0\<rparr>),
         last_alloc := Suc (last_alloc m0)\<rparr>)"
  unfolding create_pointer_data_def alloc_data_representation_def update_data_representation_def Let_def
  by (simp add: getitem_def)


lemma create_pointer_data_success:
  fixes m0 :: "('f::zero) memory"
  assumes "sample \<noteq> []" and "\<And>row. row \<in> set sample \<Longrightarrow> length (hd sample) \<le> length row"
  shows "\<exists>m'. create_pointer_data sample m0 = (Inr (Suc (last_alloc m0)), m') \<and>
      data_representation_at m' (Suc (last_alloc m0)) =
        \<lparr>number_objects = length sample, dimension = length (hd sample),
         pointer_objects = Suc (Suc (last_alloc m0))\<rparr> \<and>
      (\<forall>i<length sample. pointer_at m' (Suc (Suc (last_alloc m0))) i = last_alloc m0 + 3 + i) \<and>
      (\<forall>i<length sample. \<forall>d<length (hd sample).
         c_double_at m' (last_alloc m0 + 3 + i) d = sample ! i ! d) \<and>
      last_alloc m' = last_alloc m0 + 2 + length sample \<and>
      same_results m0 m'"
proof -
  have "\<exists>t. for_each [0..<length sample]
               (create_point sample (length (hd sample)) (Suc (Suc (last_alloc m0))))
               (header_allocated sample m0) = (None, t) \<and>
            points_created sample (length (hd sample)) (Suc (Suc (last_alloc m0)))
              (header_allocated sample m0) (length sample) t"
    using assms(2) by (intro create_points) auto
  then obtain t where run: "for_each [0..<length sample]
               (create_point sample (length (hd sample)) (Suc (Suc (last_alloc m0))))
               (header_allocated sample m0) = (None, t)"
    and t: "points_created sample (length (hd sample)) (Suc (Suc (last_alloc m0)))
              (header_allocated sample m0) (length sample) t"
    by blast
  let ?m' = "update_data_representation (Suc (last_alloc m0))
             (\<lambda>r. r\<lparr>data_representation.pointer_objects := Suc (Suc (last_alloc m0))\<rparr>) t"
  have "create_pointer_data sample m0 = (Inr (Suc (last_alloc m0)), ?m')"
    by (simp add: create_pointer_data_nonempty[OF assms(1)] run)
  moreover from t have "data_representation_at ?m' (Suc (last_alloc m0)) =
        \<lparr>number_objects = length sample, dimension = length (hd sample),
         pointer_objects = Suc (Suc (last_alloc m0))\<rparr>"
    by (simp add: points_created_def header_allocated_def update_data_representation_def)
  moreover from t have "\<forall>i<length sample. pointer_at ?m' (Suc (Suc (last_alloc m0))) i = last_alloc m0 + 3 + i"
    by (simp add: points_created_def header_allocated_def update_data_representation_def)
  moreover from t have "\<forall>i<length sample. \<forall>d<length (hd sample).
         c_double_at ?m' (last_alloc m0 + 3 + i) d = sample ! i ! d"
    by (simp add: points_created_def header_allocated_def update_data_representation_def
          numeral_3_eq_3)
  moreover from t have "last_alloc ?m' = last_alloc m0 + 2 + length sample"
    by (simp add: points_created_def header_allocated_def update_data_representation_def)
  moreover from t have "same_results m0 ?m'"
    by (simp add: points_created_def header_allocated_def update_data_representation_def same_results_def)
  ultimately show ?thesis by blast
qed

lemma read_encoded_rows:
  assumes "data_representation_at m' a =
        \<lparr>number_objects = length sample, dimension = width, pointer_objects = b\<rparr>"
    and "\<forall>i<length sample. pointer_at m' b i = c + i"
    and "\<forall>i<length sample. \<forall>d<width. c_double_at m' (c + i) d = sample ! i ! d"
    and "\<And>row. row \<in> set sample \<Longrightarrow> width \<le> length row"
  shows "read_data_representation m' a = map (take width) sample"
proof (rule nth_equalityI)
  show "length (read_data_representation m' a) = length (map (take width) sample)"
    by (simp add: read_data_representation_def assms(1))
next
  fix i assume "i < length (read_data_representation m' a)"
  then have i: "i < length sample" by (simp add: read_data_representation_def assms(1))
  then have w: "width \<le> length (sample ! i)" using assms(4) by simp
  have "map (c_double_at m' (c + i)) [0..<width] = take width (sample ! i)"
  proof (rule nth_equalityI)
    show "length (map (c_double_at m' (c + i)) [0..<width]) = length (take width (sample ! i))"
      using w by simp
  next
    fix d assume "d < length (map (c_double_at m' (c + i)) [0..<width])"
    then have "d < width" by simp
    with assms(3) i show "map (c_double_at m' (c + i)) [0..<width] ! d = take width (sample ! i) ! d"
      by simp
  qed
  with i assms(2) show "read_data_representation m' a ! i = map (take width) sample ! i"
    by (simp add: read_data_representation_def assms(1))
qed

lemma create_pointer_data_short_row:
  fixes m0 :: "('f::zero) memory"
  assumes "k < length sample" and "length (sample ! k) < length (hd sample)"
    and "\<And>i. i < k \<Longrightarrow> length (hd sample) \<le> length (sample ! i)"
  shows "fst (create_pointer_data sample m0) = Inl IndexError \<and>
         last_alloc (snd (create_pointer_data sample m0)) = last_alloc m0 + 3 + k"
proof -
  let ?n = "length sample"
  let ?body = "create_point sample (length (hd sample)) (Suc (Suc (last_alloc m0)))"
  from assms(1) have ne: "sample \<noteq> []" by auto
  have "[0..<k + (?n - k)] = [0..<k] @ [k..<k + (?n - k)]"
    by (rule upt_add_eq_append) simp
  with assms(1) have split: "[0..<?n] = [0..<k] @ k # [Suc k..<?n]"
    by (simp add: upt_conv_Cons)
  have "\<exists>t. for_each [0..<k] ?body (header_allocated sample m0) = (None, t) \<and>
            points_created sample (length (hd sample)) (Suc (Suc (last_alloc m0)))
              (header_allocated sample m0) k t"
    using assms(1,3) by (intro create_points) auto
  then obtain t where run: "for_each [0..<k] ?body (header_allocated sample m0) = (None, t)"
    and t: "last_alloc t = last_alloc m0 + 2 + k"
    by (auto simp: points_created_def header_allocated_def)
  from create_point_short[OF assms(1,2), of "Suc (Suc (last_alloc m0))" t]
  obtain t' where stop: "?body k t = (Some IndexError, t')" "last_alloc t' = Suc (last_alloc t)"
    by (cases "?body k t") auto
  have "for_each [0..<?n] ?body (header_allocated sample m0) = (Some IndexError, t')"
    unfolding split by (simp add: for_each_append run stop)
  with t stop(2) show ?thesis
    by (simp add: create_pointer_data_nonempty[OF ne])
qed

lemma first_short_row:
  assumes "row \<in> set sample" and "length row < width"
  shows "\<exists>k<length sample. length (sample ! k) < width \<and> (\<forall>i<k. width \<le> length (sample ! i))"
proof -
  from assms(1) obtain j where j: "j < length sample" "sample ! j = row"
    by (meson in_set_conv_nth)
  define k where "k = (LEAST i. i < length sample \<and> length (sample ! i) < width)"
  have ex: "j < length sample \<and> length (sample ! j) < width" using j assms(2) by simp
  have k: "k < length sample \<and> length (sample ! k) < width"
    unfolding k_def using ex by (rule LeastI)
  have "width \<le> length (sample ! i)" if "i < k" for i
  proof (rule ccontr)
    assume "\<not> width \<le> length (sample ! i)"
    with that k have "i < length sample \<and> length (sample ! i) < width" by simp
    then have "k \<le> i" unfolding k_def by (rule Least_le)
    with that show False by simp
  qed
  with k show ?thesis by blast
qed

lemma create_pointer_data_returns_iff:
  fixes m0 :: "('f::zero) memory"
  shows "(\<exists>a. fst (create_pointer_data sample m0) = Inr a) \<longleftrightarrow>
         sample \<noteq> [] \<and> (\<forall>row\<in>set sample. length (hd sample) \<le> length row)"
proof
  assume r: "\<exists>a. fst (create_pointer_data sample m0) = Inr a"
  have ne: "sample \<noteq> []"
  proof
    assume "sample = []"
    with r show False by (simp add: create_pointer_data_empty)
  qed
  have "length (hd sample) \<le> length row" if "row \<in> set sample" for row
  proof (rule ccontr)
    assume "\<not> length (hd sample) \<le> length row"
    then have "length row < length (hd sample)" by simp
    from first_short_row[OF that this]
    obtain k where k: "k < length sample" "length (sample ! k) < length (hd sample)"
      "\<And>i. i < k \<Longrightarrow> length (hd sample) \<le> length (sample ! i)" by blast
    from create_pointer_data_short_row[OF k, of m0]
    have "fst (create_pointer_data sample m0) = Inl IndexError" by (rule conjunct1)
    with r show False by simp
  qed
  with ne show "sample \<noteq> [] \<and> (\<forall>row\<in>set sample. length (hd sample) \<le> length row)" by blast
next
  assume "sample \<noteq> [] \<and> (\<forall>row\<in>set sample. length (hd sample) \<le> length row)"
  then have ok: "sample \<noteq> []" "\<And>row. row \<in> set sample \<Longrightarrow> length (hd sample) \<le> length row"
    by auto
  from create_pointer_data_success[OF ok, of m0]
  obtain m' where "create_pointer_data sample m0 = (Inr (Suc (last_alloc m0)), m')" by blast
  then have "fst (create_pointer_data sample m0) = Inr (Suc (last_alloc m0))" by simp
  then show "\<exists>a. fst (create_pointer_data sample m0) = Inr a" ..
qed

lemma create_pointer_data_address:
  fixes m0 :: "('f::zero) memory"
  assumes "sample \<noteq> []" and "\<And>row. row \<in> set sample \<Longrightarrow> length (hd sample) \<le> length row"
  shows "fst (create_pointer_data sample m0) = Inr (Suc (last_alloc m0))"
proof -
  from create_pointer_data_success[OF assms, of m0]
  obtain m' where "create_pointer_data sample m0 = (Inr (Suc (last_alloc m0)), m')" by blast
  then show ?thesis by simp
qed

lemma create_pointer_data_same_results:
  fixes m0 :: "('f::zero) memory"
  assumes "sample \<noteq> []" and "\<And>row. row \<in> set sample \<Longrightarrow> length (hd sample) \<le> length row"
  shows "same_results m0 (snd (create_pointer_data sample m0))"
proof -
  from create_pointer_data_success[OF assms, of m0]
  obtain m' where "create_pointer_data sample m0 = (Inr (Suc (last_alloc m0)), m')"
    and "same_results m0 m'" by blast
  then show ?thesis by simp
qed

lemma extract_clusters_same_results:
  assumes "same_results m m'"
  shows "extract_clusters m' ccore_result = extract_clusters m ccore_result"
proof -
  from assms have "clustering_result_at m' = clustering_result_at m"
    and "cluster_representation_at m' = cluster_representation_at m"
    and "c_uint_at m' = c_uint_at m"
    by (simp_all add: same_results_def)
  then have "read_uint m' = read_uint m"
    and "clustering_result_at m' = clustering_result_at m"
    and "cluster_representation_at m' = cluster_representation_at m"
    by (simp_all add: read_uint_def fun_eq_iff)
  then show ?thesis unfolding extract_clusters_def by (simp only:)
qed

text \<open>
  C10: \<open>create_pointer_data\<close> takes the dimension from the first row alone. It returns a
  structure exactly when the sample is not empty and no row is shorter than the first;
  the structure then has \<open>number_objects = len(sample)\<close> and \<open>dimension = len(sample[0])\<close>,
  and the buffer of every row holds the first \<open>len(sample[0])\<close> values of the row, so a longer
  row is cut to the length of the first.
\<close>

theorem encoder_takes_dimension_from_first_row:
  fixes m0 :: "('f::zero) memory" and sample :: "'f list list"
  defines "m' \<equiv> snd (create_pointer_data sample m0)"
  shows "((\<exists>a. fst (create_pointer_data sample m0) = Inr a) \<longleftrightarrow>
            sample \<noteq> [] \<and> (\<forall>row\<in>set sample. length (hd sample) \<le> length row)) \<and>
         (fst (create_pointer_data sample m0) = Inr input_data \<longrightarrow>
            data_representation.number_objects (data_representation_at m' input_data) = length sample \<and>
            dimension (data_representation_at m' input_data) = length (hd sample) \<and>
            read_data_representation m' input_data = map (take (length (hd sample))) sample)"
proof (intro conjI impI)
  show "(\<exists>a. fst (create_pointer_data sample m0) = Inr a) \<longleftrightarrow>
            sample \<noteq> [] \<and> (\<forall>row\<in>set sample. length (hd sample) \<le> length row)"
    by (rule create_pointer_data_returns_iff)
next
  assume r: "fst (create_pointer_data sample m0) = Inr input_data"
  then have "\<exists>a. fst (create_pointer_data sample m0) = Inr a" ..
  then have "sample \<noteq> [] \<and> (\<forall>row\<in>set sample. length (hd sample) \<le> length row)"
    by (rule iffD1[OF create_pointer_data_returns_iff])
  then have ok: "sample \<noteq> []" "\<And>row. row \<in> set sample \<Longrightarrow> length (hd sample) \<le> length row"
    by blast+
  from create_pointer_data_success[OF ok, of m0]
  obtain m'' where r': "create_pointer_data sample m0 = (Inr (Suc (last_alloc m0)), m'')"
    and h': "data_representation_at m'' (Suc (last_alloc m0)) =
        \<lparr>number_objects = length sample, dimension = length (hd sample),
         pointer_objects = Suc (Suc (last_alloc m0))\<rparr>"
    and p': "\<forall>i<length sample. pointer_at m'' (Suc (Suc (last_alloc m0))) i = last_alloc m0 + 3 + i"
    and v': "\<forall>i<length sample. \<forall>d<length (hd sample).
         c_double_at m'' (last_alloc m0 + 3 + i) d = sample ! i ! d"
    by blast
  from r r' have a: "input_data = Suc (last_alloc m0)" and m: "m'' = m'"
    unfolding m'_def by simp_all
  from h' m a have h: "data_representation_at m' input_data =
        \<lparr>number_objects = length sample, dimension = length (hd sample),
         pointer_objects = Suc (Suc (last_alloc m0))\<rparr>" by simp
  note p = p'[unfolded m] and v = v'[unfolded m]
  from h show "data_representation.number_objects (data_representation_at m' input_data) = length sample"
    and "dimension (data_representation_at m' input_data) = length (hd sample)" by simp_all
  from h p v ok(2) show "read_data_representation m' input_data = map (take (length (hd sample))) sample"
    by (rule read_encoded_rows)
qed



text \<open>The witness encodes \<open>[[1, 2], [3, 4, 5]]\<close> and reads \<open>[[1, 2], [3, 4]]\<close> back.\<close>

theorem encoder_takes_dimension_from_first_row_witness:
  "fst (create_pointer_data [[1, 2], [3, 4, 5]] (zero_memory :: real memory)) = Inr 1 \<and>
   data_representation.number_objects
     (data_representation_at
        (snd (create_pointer_data [[1, 2], [3, 4, 5]] (zero_memory :: real memory))) 1) = 2 \<and>
   dimension
     (data_representation_at
        (snd (create_pointer_data [[1, 2], [3, 4, 5]] (zero_memory :: real memory))) 1) = 2 \<and>
   read_data_representation
     (snd (create_pointer_data [[1, 2], [3, 4, 5]] (zero_memory :: real memory))) 1 =
     [[1, 2], [3, 4]]"
proof -
  have z: "last_alloc (zero_memory :: real memory) = 0" by (simp add: zero_memory_def)
  have r: "fst (create_pointer_data [[1, 2], [3, 4, 5]] (zero_memory :: real memory)) = Inr 1"
  proof -
    have ne: "[[1, 2], [3, 4, 5 :: real]] \<noteq> []" by simp
    have ok: "length (hd [[1, 2], [3, 4, 5 :: real]]) \<le> length row"
      if "row \<in> set [[1, 2], [3, 4, 5 :: real]]" for row
      using that by auto
    from create_pointer_data_address[OF ne ok, of "zero_memory :: real memory"]
    show ?thesis by (simp add: z)
  qed
  from conjunct2[OF encoder_takes_dimension_from_first_row[of "[[1, 2], [3, 4, 5]]" "zero_memory :: real memory" 1], rule_format, OF r] r
  show ?thesis by simp
qed
text \<open>
  C7: for a sample that is not empty and whose rows have one length, encoding returns a
  structure, and reading the encoded buffers back row by row gives the sample, each value
  unchanged and in its place.
\<close>

theorem encoder_round_trip:
  fixes m0 :: "('f::zero) memory"
  assumes "sample \<noteq> []" and "\<forall>row\<in>set sample. length row = length (hd sample)"
  shows "\<exists>input_data. fst (create_pointer_data sample m0) = Inr input_data \<and>
           read_data_representation (snd (create_pointer_data sample m0)) input_data = sample"
proof -
  have ok: "sample \<noteq> []" "\<And>row. row \<in> set sample \<Longrightarrow> length (hd sample) \<le> length row"
  proof -
    show "sample \<noteq> []" by (rule assms(1))
    fix row assume "row \<in> set sample"
    with assms(2) have "length row = length (hd sample)" by blast
    then show "length (hd sample) \<le> length row" by (rule eq_imp_le[OF sym])
  qed
  from create_pointer_data_success[OF ok, of m0]
  obtain m' where r: "create_pointer_data sample m0 = (Inr (Suc (last_alloc m0)), m')"
    and h: "data_representation_at m' (Suc (last_alloc m0)) =
        \<lparr>number_objects = length sample, dimension = length (hd sample),
         pointer_objects = Suc (Suc (last_alloc m0))\<rparr>"
    and p: "\<forall>i<length sample. pointer_at m' (Suc (Suc (last_alloc m0))) i = last_alloc m0 + 3 + i"
    and v: "\<forall>i<length sample. \<forall>d<length (hd sample).
         c_double_at m' (last_alloc m0 + 3 + i) d = sample ! i ! d"
    by blast
  from h p v ok(2) have "read_data_representation m' (Suc (last_alloc m0)) =
      map (take (length (hd sample))) sample"
    by (rule read_encoded_rows)
  also have "map (take (length (hd sample))) sample = sample"
  proof (rule map_idI)
    fix row assume "row \<in> set sample"
    with assms(2) have "length row = length (hd sample)" by blast
    then show "take (length (hd sample)) row = row" by (simp only: take_all_iff order_refl)
  qed
  finally show ?thesis using r by simp
qed



text \<open>The witness encodes \<open>[[1, 2], [3, 4]]\<close>.\<close>

theorem encoder_round_trip_witness:
  "\<exists>input_data.
     fst (create_pointer_data [[1, 2], [3, 4]] (zero_memory :: real memory)) = Inr input_data \<and>
     read_data_representation
       (snd (create_pointer_data [[1, 2], [3, 4]] (zero_memory :: real memory))) input_data =
     [[1, 2], [3, 4]]"
proof -
  have a: "[[1, 2], [3, 4 :: real]] \<noteq> []" by simp
  have b: "\<forall>row\<in>set [[1, 2], [3, 4 :: real]]. length row = length (hd [[1, 2], [3, 4 :: real]])"
    by simp
  show ?thesis by (rule encoder_round_trip[OF a b])
qed
text \<open>
  C3, as amended: the encoder checks nothing before it allocates.
  \<^item> The empty sample fails with \<open>IndexError\<close>, raised by \<open>sample[0]\<close> after the structure
    \<open>input_data\<close> has been allocated; no pointer array and no row buffer is written.
  \<^item> A row shorter than the first fails with \<open>IndexError\<close> when the first such row, at
    index \<open>k\<close>, is copied: by then the structure, the pointer array and \<open>k + 1\<close> row buffers
    have been allocated.
  \<^item> A sample whose rows are all at least as long as the first is encoded, equal lengths
    or not.
\<close>

theorem encoder_has_no_shape_validation:
  fixes m0 :: "('f::zero) memory"
  shows "(fst (create_pointer_data [] m0) = Inl IndexError \<and>
          last_alloc (snd (create_pointer_data [] m0)) = last_alloc m0 + 1 \<and>
          pointer_at (snd (create_pointer_data [] m0)) = pointer_at m0 \<and>
          c_double_at (snd (create_pointer_data [] m0)) = c_double_at m0) \<and>
         (k < length sample \<and> length (sample ! k) < length (hd sample) \<and>
          (\<forall>i<k. length (hd sample) \<le> length (sample ! i)) \<longrightarrow>
          fst (create_pointer_data sample m0) = Inl IndexError \<and>
          last_alloc (snd (create_pointer_data sample m0)) = last_alloc m0 + 3 + k) \<and>
         (sample \<noteq> [] \<and> (\<forall>row\<in>set sample. length (hd sample) \<le> length row) \<longrightarrow>
          fst (create_pointer_data sample m0) = Inr (Suc (last_alloc m0)))"
proof (intro conjI impI)
  show "fst (create_pointer_data [] m0) = Inl IndexError"
    and "last_alloc (snd (create_pointer_data [] m0)) = last_alloc m0 + 1"
    and "pointer_at (snd (create_pointer_data [] m0)) = pointer_at m0"
    and "c_double_at (snd (create_pointer_data [] m0)) = c_double_at m0"
    by (simp_all add: create_pointer_data_empty)
next
  assume a: "k < length sample \<and> length (sample ! k) < length (hd sample) \<and>
          (\<forall>i<k. length (hd sample) \<le> length (sample ! i))"
  then have k: "k < length sample" "length (sample ! k) < length (hd sample)"
    "\<And>i. i < k \<Longrightarrow> length (hd sample) \<le> length (sample ! i)" by auto
  from create_pointer_data_short_row[OF k, of m0]
  show "fst (create_pointer_data sample m0) = Inl IndexError"
    and "last_alloc (snd (create_pointer_data sample m0)) = last_alloc m0 + 3 + k"
    by simp_all
next
  assume "sample \<noteq> [] \<and> (\<forall>row\<in>set sample. length (hd sample) \<le> length row)"
  then have ok: "sample \<noteq> []" "\<And>row. row \<in> set sample \<Longrightarrow> length (hd sample) \<le> length row"
    by auto
  from create_pointer_data_success[OF ok, of m0]
  obtain m' where "create_pointer_data sample m0 = (Inr (Suc (last_alloc m0)), m')" by blast
  then show "fst (create_pointer_data sample m0) = Inr (Suc (last_alloc m0))" by simp
qed




text \<open>The witness runs the encoder on \<open>[]\<close>, on \<open>[[1, 2], [3]]\<close> and on \<open>[[1, 2], [3, 4, 5]]\<close>.\<close>

theorem encoder_has_no_shape_validation_witness:
  "fst (create_pointer_data [] (zero_memory :: real memory)) = Inl IndexError \<and>
   last_alloc (snd (create_pointer_data [] (zero_memory :: real memory))) = 1 \<and>
   fst (create_pointer_data [[1, 2], [3]] (zero_memory :: real memory)) = Inl IndexError \<and>
   last_alloc (snd (create_pointer_data [[1, 2], [3]] (zero_memory :: real memory))) = 4 \<and>
   fst (create_pointer_data [[1, 2], [3, 4, 5]] (zero_memory :: real memory)) = Inr 1"
proof -
  have z: "last_alloc (zero_memory :: real memory) = 0" by (simp add: zero_memory_def)
  note T = encoder_has_no_shape_validation[of "zero_memory :: real memory" 1 "[[1, 2], [3]]"]
  note U = encoder_has_no_shape_validation[of "zero_memory :: real memory" 0 "[[1, 2], [3, 4, 5]]"]
  have short: "1 < length [[1, 2], [3 :: real]] \<and>
      length ([[1, 2], [3 :: real]] ! 1) < length (hd [[1, 2], [3 :: real]]) \<and>
      (\<forall>i<1. length (hd [[1, 2], [3 :: real]]) \<le> length ([[1, 2], [3 :: real]] ! i))"
    by simp
  have long: "[[1, 2], [3, 4, 5 :: real]] \<noteq> [] \<and>
      (\<forall>row\<in>set [[1, 2], [3, 4, 5 :: real]]. length (hd [[1, 2], [3, 4, 5 :: real]]) \<le> length row)"
    by simp
  from conjunct1[OF T] have e: "fst (create_pointer_data [] (zero_memory :: real memory)) = Inl IndexError"
    "last_alloc (snd (create_pointer_data [] (zero_memory :: real memory))) = 1"
    by (simp_all add: z)
  from conjunct1[OF conjunct2[OF T], rule_format, OF short]
  have s: "fst (create_pointer_data [[1, 2], [3]] (zero_memory :: real memory)) = Inl IndexError"
    "last_alloc (snd (create_pointer_data [[1, 2], [3]] (zero_memory :: real memory))) = 4"
    by (simp_all add: z)
  from conjunct2[OF conjunct2[OF U], rule_format, OF long]
  have l: "fst (create_pointer_data [[1, 2], [3, 4, 5]] (zero_memory :: real memory)) = Inr 1"
    by (simp add: z)
  from e s l show ?thesis by blast
qed

text \<open>
  C3, counterexample: the rows of \<open>[[1], [2, 3]]\<close> differ in length, and encoding returns
  the structure at address 1 instead of failing.
\<close>

theorem rows_of_differing_length_are_encoded:
  "length [1 :: real] \<noteq> length [2, 3 :: real] \<and>
   fst (create_pointer_data [[1], [2, 3]] (zero_memory :: real memory)) = Inr 1"
proof -
  have z: "last_alloc (zero_memory :: real memory) = 0" by (simp add: zero_memory_def)
  have "fst (create_pointer_data [[1], [2, 3]] (zero_memory :: real memory)) = Inr 1"
  proof -
    have ne: "[[1], [2, 3 :: real]] \<noteq> []" by simp
    have ok: "length (hd [[1], [2, 3 :: real]]) \<le> length row"
      if "row \<in> set [[1], [2, 3 :: real]]" for row
      using that by auto
    from create_pointer_data_address[OF ne ok, of "zero_memory :: real memory"]
    show ?thesis by (simp add: z)
  qed
  then show ?thesis by simp
qed

section \<open>The wrappers of the algorithms\<close>

lemma dbscan_result:
  fixes w :: "('f::zero) process"
  assumes "create_pointer_data sample (heap w) = (Inr pointer_data, m1)"
    and "invoke ccore ''dbscan_algorithm''
           [ArgPointer pointer_data, ArgDouble eps, c_uint_arg min_neighbors] (w\<lparr>heap := m1\<rparr>) =
         (result, w1)"
    and "extract_clusters (heap w1) result = Inr list_of_clusters"
  shows "dbscan ccore sample eps min_neighbors return_noise w =
     (if list_of_clusters = [] then Inl IndexError
      else if return_noise
        then Inr (ClustersAndNoise (remove1 (last list_of_clusters) list_of_clusters)
                    (last list_of_clusters))
        else Inr (Clusters (remove1 (last list_of_clusters) list_of_clusters)),
      snd (invoke ccore ''free_clustering_result'' [ArgInteger result] w1))"
  unfolding dbscan_def
  by (simp add: assms getitem_last split_beta)

lemma hierarchical_result:
  fixes w :: "('f::zero) process"
  assumes "create_pointer_data sample (heap w) = (Inr pointer_data, m1)"
    and "invoke ccore ''hierarchical_algorithm''
           [ArgPointer pointer_data, c_uint_arg number_clusters'] (w\<lparr>heap := m1\<rparr>) =
         (result, w1)"
    and "extract_clusters (heap w1) result = Inr list_of_clusters"
  shows "hierarchical ccore sample number_clusters' w =
     (Inr list_of_clusters, snd (invoke ccore ''free_clustering_result'' [ArgInteger result] w1))"
  unfolding hierarchical_def
  by (simp add: assms split_beta)

lemma example_sample_address:
  "fst (create_pointer_data [[0, 0]] result_memory) = Inr 101"
proof -
  have ne: "[[0, 0 :: real]] \<noteq> []" by simp
  have ok: "length (hd [[0, 0 :: real]]) \<le> length row" if "row \<in> set [[0, 0 :: real]]" for row
    using that by auto
  have "last_alloc result_memory = 100" by (simp add: result_memory_def)
  with create_pointer_data_address[OF ne ok, of result_memory]
  show ?thesis by simp
qed

lemma example_sample_encoded:
  "create_pointer_data [[0, 0]] result_memory =
     (Inr 101, snd (create_pointer_data [[0, 0]] result_memory))"
  using example_sample_address by (simp add: prod_eq_iff)

lemma example_clusters: "extract_clusters result_memory 5 = Inr [[0, 2, 4], [1, 3]]"
  by code_simp

lemma example_clusters_after_encoding:
  "extract_clusters (snd (create_pointer_data [[0, 0]] result_memory)) 5 = Inr [[0, 2, 4], [1, 3]]"
proof -
  have ne: "[[0, 0 :: real]] \<noteq> []" by simp
  have ok: "length (hd [[0, 0 :: real]]) \<le> length row" if "row \<in> set [[0, 0 :: real]]" for row
    using that by auto
  from create_pointer_data_same_results[OF ne ok, of result_memory]
  have "extract_clusters (snd (create_pointer_data [[0, 0]] result_memory)) 5 =
        extract_clusters result_memory 5"
    by (rule extract_clusters_same_results)
  then show ?thesis by (simp only: example_clusters)
qed

text \<open>
  C2, as amended: of the clustering wrappers, \<open>dbscan\<close> alone takes the last group for
  noise. When the sample is encoded and the decoded list is not empty and its last group
  equals none of the groups before it, \<open>dbscan\<close> returns the groups without the last, and
  with \<open>return_noise\<close> the pair of these groups and the last group. \<open>hierarchical\<close> returns
  the decoded list as it is, the last group included.
\<close>

theorem dbscan_alone_splits_last_group:
  fixes w :: "('f::zero) process" and sample :: "'f list list" and ccore :: "'f ccore"
    and pointer_data :: addr
  defines "enc \<equiv> create_pointer_data sample (heap w)"
  defines "call \<equiv> \<lambda>entry args. invoke ccore entry (ArgPointer pointer_data # args) (w\<lparr>heap := snd enc\<rparr>)"
  assumes "fst enc = Inr pointer_data"
  shows
    "(extract_clusters (heap (snd (call ''dbscan_algorithm'' [ArgDouble eps, c_uint_arg min_neighbors])))
        (fst (call ''dbscan_algorithm'' [ArgDouble eps, c_uint_arg min_neighbors])) = Inr list_of_clusters \<and>
      list_of_clusters \<noteq> [] \<and> last list_of_clusters \<notin> set (butlast list_of_clusters) \<longrightarrow>
      fst (dbscan ccore sample eps min_neighbors return_noise w) =
        Inr (if return_noise
             then ClustersAndNoise (butlast list_of_clusters) (last list_of_clusters)
             else Clusters (butlast list_of_clusters))) \<and>
     (extract_clusters (heap (snd (call ''hierarchical_algorithm'' [c_uint_arg number_clusters'])))
        (fst (call ''hierarchical_algorithm'' [c_uint_arg number_clusters'])) = Inr list_of_clusters \<longrightarrow>
      fst (hierarchical ccore sample number_clusters' w) = Inr list_of_clusters)"
proof (intro conjI impI)
  have enc: "create_pointer_data sample (heap w) = (Inr pointer_data, snd enc)"
    using assms(3) unfolding enc_def by (simp add: prod_eq_iff)
  {
    assume a: "extract_clusters (heap (snd (call ''dbscan_algorithm'' [ArgDouble eps, c_uint_arg min_neighbors])))
        (fst (call ''dbscan_algorithm'' [ArgDouble eps, c_uint_arg min_neighbors])) = Inr list_of_clusters \<and>
      list_of_clusters \<noteq> [] \<and> last list_of_clusters \<notin> set (butlast list_of_clusters)"
    have c: "invoke ccore ''dbscan_algorithm''
         [ArgPointer pointer_data, ArgDouble eps, c_uint_arg min_neighbors] (w\<lparr>heap := snd enc\<rparr>) =
        (fst (call ''dbscan_algorithm'' [ArgDouble eps, c_uint_arg min_neighbors]),
         snd (call ''dbscan_algorithm'' [ArgDouble eps, c_uint_arg min_neighbors]))"
      by (simp add: call_def)
    from a have r: "remove1 (last list_of_clusters) list_of_clusters = butlast list_of_clusters"
      by (simp add: remove1_last)
    from a show "fst (dbscan ccore sample eps min_neighbors return_noise w) =
        Inr (if return_noise
             then ClustersAndNoise (butlast list_of_clusters) (last list_of_clusters)
             else Clusters (butlast list_of_clusters))"
      by (simp add: dbscan_result[OF enc c conjunct1[OF a]] r)
  }
  {
    assume a: "extract_clusters (heap (snd (call ''hierarchical_algorithm'' [c_uint_arg number_clusters'])))
        (fst (call ''hierarchical_algorithm'' [c_uint_arg number_clusters'])) = Inr list_of_clusters"
    have c: "invoke ccore ''hierarchical_algorithm''
         [ArgPointer pointer_data, c_uint_arg number_clusters'] (w\<lparr>heap := snd enc\<rparr>) =
        (fst (call ''hierarchical_algorithm'' [c_uint_arg number_clusters']),
         snd (call ''hierarchical_algorithm'' [c_uint_arg number_clusters']))"
      by (simp add: call_def)
    show "fst (hierarchical ccore sample number_clusters' w) = Inr list_of_clusters"
      by (simp add: hierarchical_result[OF enc c a])
  }
qed

lemma example_call:
  "invoke example_ccore ''dbscan_algorithm'' args (result_process\<lparr>heap := m\<rparr>) =
     (5, \<lparr>heap = m, calls = [(''dbscan_algorithm'', args)]\<rparr>)"
  "invoke example_ccore ''hierarchical_algorithm'' args (result_process\<lparr>heap := m\<rparr>) =
     (5, \<lparr>heap = m, calls = [(''hierarchical_algorithm'', args)]\<rparr>)"
  by (simp_all add: invoke_def example_ccore_def result_process_def)

text \<open>
  The witness runs both wrappers on the result at 5, with the groups \<open>[0, 2, 4]\<close> and
  \<open>[1, 3]\<close>.
\<close>

theorem dbscan_alone_splits_last_group_witness:
  "fst (dbscan example_ccore [[0, 0]] 1 2 False result_process) = Inr (Clusters [[0, 2, 4]]) \<and>
   fst (dbscan example_ccore [[0, 0]] 1 2 True result_process) =
     Inr (ClustersAndNoise [[0, 2, 4]] [1, 3]) \<and>
   fst (hierarchical example_ccore [[0, 0]] 2 result_process) = Inr [[0, 2, 4], [1, 3]]"
proof -
  have h: "heap result_process = result_memory" by (simp add: result_process_def)
  have e: "fst (create_pointer_data [[0, 0]] (heap result_process)) = Inr 101"
    by (simp add: h example_sample_address)
  have d: "extract_clusters
        (heap (snd (invoke example_ccore ''dbscan_algorithm''
                      (ArgPointer 101 # [ArgDouble 1, c_uint_arg 2])
                      (result_process\<lparr>heap := snd (create_pointer_data [[0, 0]] (heap result_process))\<rparr>))))
        (fst (invoke example_ccore ''dbscan_algorithm''
                      (ArgPointer 101 # [ArgDouble 1, c_uint_arg 2])
                      (result_process\<lparr>heap := snd (create_pointer_data [[0, 0]] (heap result_process))\<rparr>))) =
        Inr [[0, 2, 4], [1, 3]] \<and>
      [[0, 2, 4], [1, 3 :: nat]] \<noteq> [] \<and>
      last [[0, 2, 4], [1, 3 :: nat]] \<notin> set (butlast [[0, 2, 4], [1, 3]])"
    by (simp add: example_call h example_clusters_after_encoding)
  have g: "extract_clusters
        (heap (snd (invoke example_ccore ''hierarchical_algorithm''
                      (ArgPointer 101 # [c_uint_arg 2])
                      (result_process\<lparr>heap := snd (create_pointer_data [[0, 0]] (heap result_process))\<rparr>))))
        (fst (invoke example_ccore ''hierarchical_algorithm''
                      (ArgPointer 101 # [c_uint_arg 2])
                      (result_process\<lparr>heap := snd (create_pointer_data [[0, 0]] (heap result_process))\<rparr>))) =
        Inr [[0, 2, 4], [1, 3]]"
    by (simp add: example_call h example_clusters_after_encoding)
  note T = dbscan_alone_splits_last_group[where w = result_process and sample = "[[0, 0]]" and ccore = example_ccore
      and pointer_data = 101 and eps = 1 and min_neighbors = 2
      and list_of_clusters = "[[0, 2, 4], [1, 3]]" and number_clusters' = 2, OF e]
  from conjunct1[OF T[where return_noise = False], rule_format, OF d]
  have 1: "fst (dbscan example_ccore [[0, 0]] 1 2 False result_process) = Inr (Clusters [[0, 2, 4]])"
    by simp
  from conjunct1[OF T[where return_noise = True], rule_format, OF d]
  have 2: "fst (dbscan example_ccore [[0, 0]] 1 2 True result_process) =
     Inr (ClustersAndNoise [[0, 2, 4]] [1, 3])"
    by simp
  from conjunct2[OF T[where return_noise = True], rule_format, OF g]
  have 3: "fst (hierarchical example_ccore [[0, 0]] 2 result_process) = Inr [[0, 2, 4], [1, 3]]" .
  from 1 2 3 show ?thesis by blast
qed

text \<open>
  C2, counterexample: on the result with the groups \<open>[0, 2, 4]\<close> and \<open>[1, 3]\<close>,
  \<open>hierarchical\<close> returns both groups; the last one is not split off.
\<close>

theorem hierarchical_returns_last_group:
  "fst (hierarchical example_ccore [[0, 0]] 2 result_process) = Inr [[0, 2, 4], [1, 3]]"
proof -
  have h: "heap result_process = result_memory" by (simp add: result_process_def)
  have e: "create_pointer_data [[0, 0]] (heap result_process) =
      (Inr 101, snd (create_pointer_data [[0, 0]] result_memory))"
    unfolding h by (rule example_sample_encoded)
  show ?thesis
    by (simp add: hierarchical_result[OF e example_call(2)] example_clusters_after_encoding)
qed

section \<open>The protocol of the wrappers\<close>

text \<open>
  Each wrapper that decodes a clustering result or a dynamic is an instance of
  \<open>decode_then_release\<close>; the four readers of a map make one foreign call.
\<close>

lemma decode_then_release_returns:
  assumes "invoke ccore entry args w0 = (result, w1)" and "decode (heap w1) result = Inr v"
  shows "decode_then_release ccore entry args release decode w0 =
    (Inr v, \<lparr>heap = snd (ccore release [ArgInteger result] (heap w1)),
             calls = calls w0 @ [(entry, args), (release, [ArgInteger result])]\<rparr>)"
proof -
  from assms(1) have "calls w1 = calls w0 @ [(entry, args)]"
    by (auto simp: invoke_def split_beta)
  with assms show ?thesis
    by (simp add: decode_then_release_def invoke_def split_beta)
qed

lemma decode_then_release_raises:
  assumes "invoke ccore entry args w0 = (result, w1)" and "decode (heap w1) result = Inl e"
  shows "decode_then_release ccore entry args release decode w0 = (Inl e, w1)"
  using assms by (simp add: decode_then_release_def)

lemma dbscan_protocol:
  fixes w :: "('f::zero) process"
  assumes "create_pointer_data sample (heap w) = (Inr pointer_data, ms)"
  shows
    "dbscan ccore sample eps min_neighbors return_noise w =
       (case decode_then_release ccore ''dbscan_algorithm''
               [ArgPointer pointer_data, ArgDouble eps, c_uint_arg min_neighbors]
               ''free_clustering_result'' extract_clusters (w\<lparr>heap := ms\<rparr>) of
          (Inl e, w') \<Rightarrow> (Inl e, w')
        | (Inr list_of_clusters, w') \<Rightarrow> (split_noise return_noise list_of_clusters, w'))"
  by (simp add: dbscan_def decode_then_release_def split_noise_def assms split_beta
      split: sum.splits)

lemma cure_protocol:
  fixes w :: "('f::zero) process"
  assumes "create_pointer_data sample (heap w) = (Inr pointer_data, ms)"
  shows
    "cure ccore sample number_clusters' number_represent_points compression w =
       decode_then_release ccore ''cure_algorithm''
         [ArgPointer pointer_data, c_uint_arg number_clusters', c_uint_arg number_represent_points, ArgDouble compression]
         ''free_clustering_result'' extract_clusters (w\<lparr>heap := ms\<rparr>)"
  by (simp add: cure_def decode_then_release_def assms split_beta split: sum.splits)

lemma hierarchical_protocol:
  fixes w :: "('f::zero) process"
  assumes "create_pointer_data sample (heap w) = (Inr pointer_data, ms)"
  shows
    "hierarchical ccore sample number_clusters' w =
       decode_then_release ccore ''hierarchical_algorithm''
         [ArgPointer pointer_data, c_uint_arg number_clusters']
         ''free_clustering_result'' extract_clusters (w\<lparr>heap := ms\<rparr>)"
  by (simp add: hierarchical_def decode_then_release_def assms split_beta split: sum.splits)

lemma rock_protocol:
  fixes w :: "('f::zero) process"
  assumes "create_pointer_data sample (heap w) = (Inr pointer_data, ms)"
  shows
    "rock ccore sample eps number_clusters' threshold w =
       decode_then_release ccore ''rock_algorithm''
         [ArgPointer pointer_data, ArgDouble eps, c_uint_arg number_clusters', ArgDouble threshold]
         ''free_clustering_result'' extract_clusters (w\<lparr>heap := ms\<rparr>)"
  by (simp add: rock_def decode_then_release_def assms split_beta split: sum.splits)

lemma kmeans_protocol:
  fixes w :: "('f::zero) process"
  assumes "create_pointer_data sample (heap w) = (Inr pointer_data, ms)"
    and "create_pointer_data centers ms = (Inr pointer_centers, mc)"
  shows
    "kmeans ccore sample centers tolerance w =
       decode_then_release ccore ''kmeans_algorithm''
         [ArgPointer pointer_data, ArgPointer pointer_centers, ArgDouble tolerance]
         ''free_clustering_result'' extract_clusters (w\<lparr>heap := mc\<rparr>)"
  by (simp add: kmeans_def decode_then_release_def assms split_beta split: sum.splits)

lemma xmeans_protocol:
  fixes w :: "('f::zero) process"
  assumes "create_pointer_data sample (heap w) = (Inr pointer_data, ms)"
    and "create_pointer_data centers ms = (Inr pointer_centers, mc)"
  shows
    "xmeans ccore sample centers kmax tolerance w =
       decode_then_release ccore ''xmeans_algorithm''
         [ArgPointer pointer_data, ArgPointer pointer_centers, c_uint_arg kmax, ArgDouble tolerance]
         ''free_clustering_result'' extract_clusters (w\<lparr>heap := mc\<rparr>)"
  by (simp add: xmeans_def decode_then_release_def assms split_beta split: sum.splits)

lemma simulate_sync_network_protocol:
  "simulate_sync_network ccore pointer_network steps time solution collect_dynamic w =
     decode_then_release ccore ''simulate_sync_network''
       [ArgInteger pointer_network, c_uint_arg steps, ArgDouble time, c_uint_arg solution, ArgBool collect_dynamic]
       ''free_dynamic_result'' extract_dynamics w"
  by (simp add: simulate_sync_network_def decode_then_release_def split_beta split: sum.splits)

lemma simulate_dynamic_sync_network_protocol:
  "simulate_dynamic_sync_network ccore pointer_network order solution collect_dynamic step int_step threshold_changes w =
     decode_then_release ccore ''simulate_dynamic_sync_network''
       [ArgInteger pointer_network, ArgDouble order, c_uint_arg solution, ArgBool collect_dynamic, ArgDouble step, ArgDouble int_step, ArgDouble threshold_changes]
       ''free_dynamic_result'' extract_dynamics w"
  by (simp add: simulate_dynamic_sync_network_def decode_then_release_def split_beta split: sum.splits)

lemma allocate_sync_ensembles_sync_network_protocol:
  "allocate_sync_ensembles_sync_network ccore pointer_network tolerance w =
     decode_then_release ccore ''allocate_sync_ensembles_sync_network''
       [ArgInteger pointer_network, ArgDouble tolerance]
       ''free_clustering_result'' extract_clusters w"
  by (simp add: allocate_sync_ensembles_sync_network_def decode_then_release_def split_beta split: sum.splits)

lemma process_syncnet_protocol:
  "process_syncnet ccore pointer_network order solution collect_dynamic w =
     decode_then_release ccore ''process_syncnet''
       [ArgInteger pointer_network, ArgDouble order, c_uint_arg solution, ArgBool collect_dynamic]
       ''free_dynamic_result'' extract_dynamics w"
  by (simp add: process_syncnet_def decode_then_release_def split_beta split: sum.splits)

lemma get_clusters_syncnet_protocol:
  "get_clusters_syncnet ccore pointer_network tolerance w =
     decode_then_release ccore ''get_clusters_syncnet''
       [ArgInteger pointer_network, ArgDouble tolerance]
       ''free_clustering_result'' extract_clusters w"
  by (simp add: get_clusters_syncnet_def decode_then_release_def split_beta split: sum.splits)

lemma process_hsyncnet_protocol:
  "process_hsyncnet ccore pointer_network order solution collect_dynamic w =
     decode_then_release ccore ''process_hsyncnet''
       [ArgInteger pointer_network, ArgDouble order, c_uint_arg solution, ArgBool collect_dynamic]
       ''free_dynamic_result'' extract_dynamics w"
  by (simp add: process_hsyncnet_def decode_then_release_def split_beta split: sum.splits)

lemma som_get_capture_objects_calls:
  "calls (snd (som_get_capture_objects debug depth codes ccore som_pointer w)) =
     calls w @ [(''som_get_capture_objects'', [ArgInteger som_pointer])]"
  by (simp add: som_get_capture_objects_def invoke_def split_beta)

lemma som_get_weights_calls:
  "calls (snd (som_get_weights debug depth codes ccore som_pointer w)) =
     calls w @ [(''som_get_weights'', [ArgInteger som_pointer])]"
  by (simp add: som_get_weights_def invoke_def split_beta)

lemma som_get_awards_calls:
  "calls (snd (som_get_awards debug depth codes ccore som_pointer w)) =
     calls w @ [(''som_get_awards'', [ArgInteger som_pointer])]"
  by (simp add: som_get_awards_def invoke_def split_beta)

lemma som_get_neighbors_calls:
  "calls (snd (som_get_neighbors debug depth codes ccore som_pointer w)) =
     calls w @ [(''som_get_neighbors'', [ArgInteger som_pointer])]"
  by (simp add: som_get_neighbors_def invoke_def split_beta)

lemma example_dynamics:
  "extract_dynamics result_memory 2 =
     Inr ([0, 1 / 10, 2 / 10], [[5 / 10, 5 / 10], [6 / 10, 4 / 10], [7 / 10, 3 / 10]])"
  by code_simp

lemma example_centers_encoded:
  "create_pointer_data [[0, 0]] (snd (create_pointer_data [[0, 0]] result_memory)) =
     (Inr 104, snd (create_pointer_data [[0, 0]] (snd (create_pointer_data [[0, 0]] result_memory))))"
proof -
  have ne: "[[0, 0 :: real]] \<noteq> []" by simp
  have ok: "length (hd [[0, 0 :: real]]) \<le> length row" if "row \<in> set [[0, 0 :: real]]" for row
    using that by auto
  from create_pointer_data_success[OF ne ok, of result_memory]
  obtain m' where "create_pointer_data [[0, 0]] result_memory = (Inr (Suc (last_alloc result_memory)), m')"
    and "last_alloc m' = last_alloc result_memory + 2 + length [[0, 0 :: real]]"
    by blast
  then have "last_alloc (snd (create_pointer_data [[0, 0]] result_memory)) = 103"
    by (simp add: result_memory_def)
  with create_pointer_data_address[OF ne ok, of "snd (create_pointer_data [[0, 0]] result_memory)"]
  show ?thesis by (simp add: prod_eq_iff)
qed

lemma example_release:
  "extract_clusters (snd (example_ccore ''free_clustering_result'' [ArgInteger 5] m)) 5 = Inr []"
  "extract_dynamics (snd (example_ccore ''free_dynamic_result'' [ArgInteger 2] m)) 2 = Inr ([], [])"
  by (simp_all add: example_ccore_def extract_clusters_def extract_dynamics_def)

text \<open>
  C9, as amended. The decoders only read: they are functions of the memory and return no
  memory. \<open>decode_then_release\<close> calls the entry point, decodes the handle it returns in
  the memory it leaves, and, when the decoder returns \<open>v\<close>, calls the release entry point
  once, on that handle and that same memory, and returns \<open>v\<close>, the value decoded before the
  release; the log of the foreign calls gains the entry point and the release, in this
  order, and nothing else. When the decoder raises, the state is the one the entry point
  left. Each of the twelve wrappers that decode a clustering result or a dynamic is this
  protocol for its entry point, its decoder and its release (\<open>dbscan\<close> then splits the noise
  off the decoded list); those that encode a sample, and centers, are taken where the
  encoding returns. The four readers of a map add their entry point to the log and
  nothing else: the package they decode is not released.
\<close>

theorem wrappers_decode_then_release:
  fixes w w0 :: "('f::zero) process"
  shows
    "(invoke ccore entry args w0 = (result, w1) \<and> decode (heap w1) result = Inr v \<longrightarrow>
      decode_then_release ccore entry args release decode w0 =
        (Inr v, \<lparr>heap = snd (ccore release [ArgInteger result] (heap w1)),
                 calls = calls w0 @ [(entry, args), (release, [ArgInteger result])]\<rparr>)) \<and>
     (invoke ccore entry args w0 = (result, w1) \<and> decode (heap w1) result = Inl e \<longrightarrow>
      decode_then_release ccore entry args release decode w0 = (Inl e, w1)) \<and>
     (create_pointer_data sample (heap w) = (Inr pointer_data, ms) \<longrightarrow>
      dbscan ccore sample eps min_neighbors return_noise w =
        (case decode_then_release ccore ''dbscan_algorithm''
                [ArgPointer pointer_data, ArgDouble eps, c_uint_arg min_neighbors]
                ''free_clustering_result'' extract_clusters (w\<lparr>heap := ms\<rparr>) of
           (Inl e, w') \<Rightarrow> (Inl e, w')
         | (Inr list_of_clusters, w') \<Rightarrow> (split_noise return_noise list_of_clusters, w')) \<and>
      cure ccore sample number_clusters' number_represent_points compression w =
        decode_then_release ccore ''cure_algorithm''
          [ArgPointer pointer_data, c_uint_arg number_clusters', c_uint_arg number_represent_points, ArgDouble compression]
          ''free_clustering_result'' extract_clusters (w\<lparr>heap := ms\<rparr>) \<and>
      hierarchical ccore sample number_clusters' w =
        decode_then_release ccore ''hierarchical_algorithm''
          [ArgPointer pointer_data, c_uint_arg number_clusters']
          ''free_clustering_result'' extract_clusters (w\<lparr>heap := ms\<rparr>) \<and>
      rock ccore sample eps number_clusters' threshold w =
        decode_then_release ccore ''rock_algorithm''
          [ArgPointer pointer_data, ArgDouble eps, c_uint_arg number_clusters', ArgDouble threshold]
          ''free_clustering_result'' extract_clusters (w\<lparr>heap := ms\<rparr>) \<and>
      (create_pointer_data centers ms = (Inr pointer_centers, mc) \<longrightarrow>
       kmeans ccore sample centers tolerance w =
         decode_then_release ccore ''kmeans_algorithm''
           [ArgPointer pointer_data, ArgPointer pointer_centers, ArgDouble tolerance]
           ''free_clustering_result'' extract_clusters (w\<lparr>heap := mc\<rparr>) \<and>
       xmeans ccore sample centers kmax tolerance w =
         decode_then_release ccore ''xmeans_algorithm''
           [ArgPointer pointer_data, ArgPointer pointer_centers, c_uint_arg kmax, ArgDouble tolerance]
           ''free_clustering_result'' extract_clusters (w\<lparr>heap := mc\<rparr>))) \<and>
     simulate_sync_network ccore pointer_network steps time solution collect_dynamic w =
       decode_then_release ccore ''simulate_sync_network''
         [ArgInteger pointer_network, c_uint_arg steps, ArgDouble time, c_uint_arg solution, ArgBool collect_dynamic]
         ''free_dynamic_result'' extract_dynamics w \<and>
     simulate_dynamic_sync_network ccore pointer_network order solution collect_dynamic step int_step threshold_changes w =
       decode_then_release ccore ''simulate_dynamic_sync_network''
         [ArgInteger pointer_network, ArgDouble order, c_uint_arg solution, ArgBool collect_dynamic, ArgDouble step, ArgDouble int_step, ArgDouble threshold_changes]
         ''free_dynamic_result'' extract_dynamics w \<and>
     allocate_sync_ensembles_sync_network ccore pointer_network tolerance w =
       decode_then_release ccore ''allocate_sync_ensembles_sync_network''
         [ArgInteger pointer_network, ArgDouble tolerance]
         ''free_clustering_result'' extract_clusters w \<and>
     process_syncnet ccore pointer_network order solution collect_dynamic w =
       decode_then_release ccore ''process_syncnet''
         [ArgInteger pointer_network, ArgDouble order, c_uint_arg solution, ArgBool collect_dynamic]
         ''free_dynamic_result'' extract_dynamics w \<and>
     get_clusters_syncnet ccore pointer_network tolerance w =
       decode_then_release ccore ''get_clusters_syncnet''
         [ArgInteger pointer_network, ArgDouble tolerance]
         ''free_clustering_result'' extract_clusters w \<and>
     process_hsyncnet ccore pointer_network order solution collect_dynamic w =
       decode_then_release ccore ''process_hsyncnet''
         [ArgInteger pointer_network, ArgDouble order, c_uint_arg solution, ArgBool collect_dynamic]
         ''free_dynamic_result'' extract_dynamics w \<and>
     calls (snd (som_get_capture_objects debug depth codes ccore som_pointer w)) =
       calls w @ [(''som_get_capture_objects'', [ArgInteger som_pointer])] \<and>
     calls (snd (som_get_weights debug depth codes ccore som_pointer w)) =
       calls w @ [(''som_get_weights'', [ArgInteger som_pointer])] \<and>
     calls (snd (som_get_awards debug depth codes ccore som_pointer w)) =
       calls w @ [(''som_get_awards'', [ArgInteger som_pointer])] \<and>
     calls (snd (som_get_neighbors debug depth codes ccore som_pointer w)) =
       calls w @ [(''som_get_neighbors'', [ArgInteger som_pointer])]"
  apply (intro conjI impI)
                   apply (erule conjE, erule (1) decode_then_release_returns)
                  apply (erule conjE, erule (1) decode_then_release_raises)
                 apply (erule dbscan_protocol)
                apply (erule cure_protocol)
               apply (erule hierarchical_protocol)
              apply (erule rock_protocol)
             apply (erule (1) kmeans_protocol)
            apply (erule (1) xmeans_protocol)
           apply (rule simulate_sync_network_protocol)
          apply (rule simulate_dynamic_sync_network_protocol)
         apply (rule allocate_sync_ensembles_sync_network_protocol)
        apply (rule process_syncnet_protocol)
       apply (rule get_clusters_syncnet_protocol)
      apply (rule process_hsyncnet_protocol)
     apply (rule som_get_capture_objects_calls)
    apply (rule som_get_weights_calls)
   apply (rule som_get_awards_calls)
  apply (rule som_get_neighbors_calls)
  done

text \<open>
  The witness runs \<open>dbscan\<close> and \<open>simulate_sync_network\<close> with a library whose release
  clears the header of the result: the wrappers return what the results at 5 and 2 held
  before the release, and decoding the same handles after the wrapper yields nothing. For
  \<open>kmeans\<close> the library returns NULL: the decoder raises and the log holds the entry point
  alone.
\<close>

theorem wrappers_decode_then_release_witness:
  "fst (dbscan example_ccore [[0, 0]] 1 2 False result_process) = Inr (Clusters [[0, 2, 4]]) \<and>
   calls (snd (dbscan example_ccore [[0, 0]] 1 2 False result_process)) =
     [(''dbscan_algorithm'', [ArgPointer 101, ArgDouble 1, c_uint_arg 2]),
      (''free_clustering_result'', [ArgInteger 5])] \<and>
   extract_clusters (heap (snd (dbscan example_ccore [[0, 0]] 1 2 False result_process))) 5 =
     Inr [] \<and>
   fst (simulate_sync_network example_ccore 9 3 1 0 True result_process) =
     Inr ([0, 1 / 10, 2 / 10], [[5 / 10, 5 / 10], [6 / 10, 4 / 10], [7 / 10, 3 / 10]]) \<and>
   calls (snd (simulate_sync_network example_ccore 9 3 1 0 True result_process)) =
     [(''simulate_sync_network'',
       [ArgInteger 9, c_uint_arg 3, ArgDouble 1, c_uint_arg 0, ArgBool True]),
      (''free_dynamic_result'', [ArgInteger 2])] \<and>
   extract_dynamics
     (heap (snd (simulate_sync_network example_ccore 9 3 1 0 True result_process))) 2 =
     Inr ([], []) \<and>
   fst (kmeans example_ccore [[0, 0]] [[0, 0]] 1 result_process) = Inl ValueError \<and>
   calls (snd (kmeans example_ccore [[0, 0]] [[0, 0]] 1 result_process)) =
     [(''kmeans_algorithm'', [ArgPointer 101, ArgPointer 104, ArgDouble 1])]"
proof -
  let ?ms = "snd (create_pointer_data [[0, 0]] result_memory)"
  let ?mc = "snd (create_pointer_data [[0, 0]] ?ms)"
  have h: "heap result_process = result_memory" and cr: "calls result_process = []"
    by (simp_all add: result_process_def)
  have e1: "create_pointer_data [[0, 0]] (heap result_process) = (Inr 101, ?ms)"
    unfolding h by (rule example_sample_encoded)
  note e2 = example_centers_encoded
  have i1: "invoke example_ccore ''dbscan_algorithm'' [ArgPointer 101, ArgDouble 1, c_uint_arg 2]
        (result_process\<lparr>heap := ?ms\<rparr>) =
      (5, \<lparr>heap = ?ms, calls = [(''dbscan_algorithm'', [ArgPointer 101, ArgDouble 1, c_uint_arg 2])]\<rparr>) \<and>
      extract_clusters
        (heap \<lparr>heap = ?ms, calls = [(''dbscan_algorithm'', [ArgPointer 101, ArgDouble 1, c_uint_arg 2])]\<rparr>) 5 =
      Inr [[0, 2, 4], [1, 3]]"
    by (simp add: example_call example_clusters_after_encoding)
  have i2: "invoke example_ccore ''simulate_sync_network''
        [ArgInteger 9, c_uint_arg 3, ArgDouble 1, c_uint_arg 0, ArgBool True] result_process =
      (2, \<lparr>heap = result_memory, calls = [(''simulate_sync_network'',
            [ArgInteger 9, c_uint_arg 3, ArgDouble 1, c_uint_arg 0, ArgBool True])]\<rparr>) \<and>
      extract_dynamics
        (heap \<lparr>heap = result_memory, calls = [(''simulate_sync_network'',
            [ArgInteger 9, c_uint_arg 3, ArgDouble 1, c_uint_arg 0, ArgBool True])]\<rparr>) 2 =
      Inr ([0, 1 / 10, 2 / 10], [[5 / 10, 5 / 10], [6 / 10, 4 / 10], [7 / 10, 3 / 10]])"
    by (simp add: invoke_def example_ccore_def result_process_def example_dynamics)
  have i3: "invoke example_ccore ''kmeans_algorithm'' [ArgPointer 101, ArgPointer 104, ArgDouble 1]
        (result_process\<lparr>heap := ?mc\<rparr>) =
      (0, \<lparr>heap = ?mc, calls = [(''kmeans_algorithm'', [ArgPointer 101, ArgPointer 104, ArgDouble 1])]\<rparr>) \<and>
      extract_clusters
        (heap \<lparr>heap = ?mc, calls = [(''kmeans_algorithm'', [ArgPointer 101, ArgPointer 104, ArgDouble 1])]\<rparr>) 0 =
      Inl ValueError"
    by (simp add: invoke_def example_ccore_def result_process_def extract_clusters_def)
  note A = wrappers_decode_then_release[where w = result_process and ccore = example_ccore
      and sample = "[[0, 0]]" and centers = "[[0, 0]]" and pointer_data = 101 and ms = ?ms
      and pointer_centers = 104 and mc = ?mc
      and eps = 1 and min_neighbors = 2 and return_noise = False
      and entry = "''dbscan_algorithm''" and args = "[ArgPointer 101, ArgDouble 1, c_uint_arg 2]"
      and release = "''free_clustering_result''" and decode = extract_clusters
      and ?w0.0 = "result_process\<lparr>heap := ?ms\<rparr>" and result = 5
      and v = "[[0, 2, 4], [1, 3]]"]
  note B = wrappers_decode_then_release[where w = result_process and ccore = example_ccore
      and pointer_network = 9 and steps = 3 and time = 1 and solution = 0 and collect_dynamic = True
      and entry = "''simulate_sync_network''"
      and args = "[ArgInteger 9, c_uint_arg 3, ArgDouble 1, c_uint_arg 0, ArgBool True]"
      and release = "''free_dynamic_result''" and decode = extract_dynamics
      and ?w0.0 = result_process and result = 2
      and v = "([0, 1 / 10, 2 / 10], [[5 / 10, 5 / 10], [6 / 10, 4 / 10], [7 / 10, 3 / 10]])"]
  note C = wrappers_decode_then_release[where w = result_process and ccore = example_ccore
      and sample = "[[0, 0]]" and centers = "[[0, 0]]" and pointer_data = 101 and ms = ?ms
      and pointer_centers = 104 and mc = ?mc and tolerance = 1
      and entry = "''kmeans_algorithm''" and args = "[ArgPointer 101, ArgPointer 104, ArgDouble 1]"
      and release = "''free_clustering_result''" and decode = extract_clusters
      and ?w0.0 = "result_process\<lparr>heap := ?mc\<rparr>" and result = 0 and e = ValueError]
  have d: "dbscan example_ccore [[0, 0]] 1 2 False result_process =
      (Inr (Clusters [[0, 2, 4]]),
       \<lparr>heap = snd (example_ccore ''free_clustering_result'' [ArgInteger 5] ?ms),
        calls = [(''dbscan_algorithm'', [ArgPointer 101, ArgDouble 1, c_uint_arg 2]),
                 (''free_clustering_result'', [ArgInteger 5])]\<rparr>)"
    using mp[OF conjunct1[OF A] i1] conjunct1[OF mp[OF conjunct1[OF conjunct2[OF conjunct2[OF A]]] e1]]
    by (simp add: cr split_noise_def getitem_def)
  have s: "simulate_sync_network example_ccore 9 3 1 0 True result_process =
      (Inr ([0, 1 / 10, 2 / 10], [[5 / 10, 5 / 10], [6 / 10, 4 / 10], [7 / 10, 3 / 10]]),
       \<lparr>heap = snd (example_ccore ''free_dynamic_result'' [ArgInteger 2] result_memory),
        calls = [(''simulate_sync_network'',
                  [ArgInteger 9, c_uint_arg 3, ArgDouble 1, c_uint_arg 0, ArgBool True]),
                 (''free_dynamic_result'', [ArgInteger 2])]\<rparr>)"
    using mp[OF conjunct1[OF B] i2] conjunct1[OF conjunct2[OF conjunct2[OF conjunct2[OF B]]]]
    by (simp add: cr)
  have k: "kmeans example_ccore [[0, 0]] [[0, 0]] 1 result_process =
      (Inl ValueError,
       \<lparr>heap = ?mc,
        calls = [(''kmeans_algorithm'', [ArgPointer 101, ArgPointer 104, ArgDouble 1])]\<rparr>)"
    using mp[OF conjunct1[OF conjunct2[OF C]] i3]
      conjunct1[OF mp[OF conjunct2[OF conjunct2[OF conjunct2[OF conjunct2[OF
        mp[OF conjunct1[OF conjunct2[OF conjunct2[OF C]]] e1]]]]] e2]]
    by simp
  show ?thesis
    unfolding d s k by (simp add: example_release)
qed

text \<open>
  C9, counterexample: \<open>som_get_weights\<close> decodes the package at 1 and returns; the log of
  the foreign calls holds its entry point alone, and no release.
\<close>

theorem som_get_weights_releases_nothing:
  "som_get_weights True 3 example_codes example_ccore 9 package_process =
     (Inr [PyList [PyInt 1, PyInt 2, PyInt 3],
           PyList [PyList [PyInt 4], PyList [PyInt 5, PyInt 6]]],
      \<lparr>heap = package_memory, calls = [(''som_get_weights'', [ArgInteger 9])]\<rparr>)"
proof -
  have "extract_pyclustering_package True 3 example_codes package_memory (Integer 1) =
     Inr [PyList [PyInt 1, PyInt 2, PyInt 3],
          PyList [PyList [PyInt 4], PyList [PyInt 5, PyInt 6]]]"
    by code_simp
  then show ?thesis
    by (simp add: som_get_weights_def invoke_def example_ccore_def package_process_def
        del: extract_pyclustering_package.simps)
qed

end
